theory Spec2Isabelle
  imports Complex_Main
begin

section \<open>JavaScript numbers\<close>

text \<open>
  Amounts are JavaScript numbers: IEEE 754 doubles. A finite double is given by its exact
  rational value; the result of an arithmetic operation is the exact result rounded to
  the nearest double, ties to the even significand, with 53 bits of significand, gradual
  underflow below \<open>2^-1022\<close> and overflow to infinity from \<open>2^1024\<close> on. The sign of zero
  is not kept: no comparison and no sum or difference distinguishes the two zeros.
\<close>

datatype number = Num rat | Infinity | MinusInfinity | NaN

text \<open>The number of binary digits of a natural number.\<close>

fun bits :: "nat \<Rightarrow> nat" where
  "bits n = (if n = 0 then 0 else Suc (bits (n div 2)))"

declare bits.simps [simp del]

definition pow2 :: "int \<Rightarrow> rat" where
  "pow2 k = (if 0 \<le> k then 2 ^ nat k else 1 / 2 ^ nat (- k))"

text \<open>For a positive \<open>x\<close>, the exponent \<open>e\<close> with \<open>2^e \<le> x < 2^(e+1)\<close>.\<close>

definition exponent_of :: "rat \<Rightarrow> int" where
  "exponent_of x =
     (if 1 \<le> x then int (bits (nat \<lfloor>x\<rfloor>)) - 1 else - int (bits (nat (\<lceil>1 / x\<rceil> - 1))))"

definition round_half_even :: "rat \<Rightarrow> int" where
  "round_half_even m =
     (let f = \<lfloor>m\<rfloor>; d = m - of_int f
      in if d < 1 / 2 then f else if 1 / 2 < d then f + 1 else if even f then f else f + 1)"

text \<open>The double nearest to a rational, the exponent unbounded above.\<close>

definition nearest_double :: "rat \<Rightarrow> rat" where
  "nearest_double x =
     (if x = 0 then 0
      else (let q = pow2 (max (exponent_of \<bar>x\<bar> - 52) (- 1074))
            in sgn x * (of_int (round_half_even (\<bar>x\<bar> / q)) * q)))"

text \<open>The number an exact result is rounded to; also the value of a decimal literal of
  the source or of a JSON text.\<close>

definition round_number :: "rat \<Rightarrow> number" where
  "round_number x =
     (let r = nearest_double x
      in if 2 ^ 1024 \<le> \<bar>r\<bar> then (if 0 < x then Infinity else MinusInfinity) else Num r)"

fun js_neg :: "number \<Rightarrow> number" where
  "js_neg (Num a) = Num (- a)"
| "js_neg Infinity = MinusInfinity"
| "js_neg MinusInfinity = Infinity"
| "js_neg NaN = NaN"

text \<open>\<open>a + b\<close> on two numbers.\<close>

fun js_add :: "number \<Rightarrow> number \<Rightarrow> number" where
  "js_add NaN b = NaN"
| "js_add a NaN = NaN"
| "js_add (Num a) (Num b) = round_number (a + b)"
| "js_add Infinity MinusInfinity = NaN"
| "js_add MinusInfinity Infinity = NaN"
| "js_add Infinity b = Infinity"
| "js_add MinusInfinity b = MinusInfinity"
| "js_add (Num a) b = b"

text \<open>\<open>a - b\<close> on two numbers.\<close>

definition js_sub :: "number \<Rightarrow> number \<Rightarrow> number" where
  "js_sub a b = js_add a (js_neg b)"

text \<open>\<open>a < b\<close> on two numbers.\<close>

fun js_lt :: "number \<Rightarrow> number \<Rightarrow> bool" where
  "js_lt NaN b = False"
| "js_lt a NaN = False"
| "js_lt (Num a) (Num b) = (a < b)"
| "js_lt a MinusInfinity = False"
| "js_lt MinusInfinity b = True"
| "js_lt Infinity b = False"
| "js_lt (Num a) Infinity = True"

text \<open>\<open>a >= b\<close> on two numbers.\<close>

definition js_ge :: "number \<Rightarrow> number \<Rightarrow> bool" where
  "js_ge a b = (a \<noteq> NaN \<and> b \<noteq> NaN \<and> \<not> js_lt a b)"

text \<open>\<open>Math.round\<close> on a finite value: the nearest integer, ties upwards.\<close>

definition Math_round :: "rat \<Rightarrow> rat" where
  "Math_round x = of_int \<lfloor>x + 1 / 2\<rfloor>"

section \<open>Request values and their conversions\<close>

text \<open>
  The amount of a request body as the JSON parser delivers it: a number, or a string. (A
  body without an amount, or with an amount of another JSON type, is refused by the
  validation middleware and not modelled.)
\<close>

datatype json_amount = JNumber number | JString string

text \<open>
  The conversions between strings and numbers are JavaScript's and Joi's own, not the
  repository's; the model takes them as a parameter:
  \<^item> \<open>Joi_coerce s\<close>: the number that \<open>Joi.number()\<close> converts the string \<open>s\<close> to, \<open>None\<close>
    when it refuses the string;
  \<^item> \<open>ToNumber s\<close>: the number value of the string in a comparison, a subtraction or a
    cast to a Number path;
  \<^item> \<open>concat_ToNumber n s\<close>: the cast to a Number path of the string \<open>String(n) + s\<close>,
    which is what \<open>n += s\<close> assigns.
\<close>

record conversions =
  Joi_coerce :: "string \<Rightarrow> number option"
  ToNumber :: "string \<Rightarrow> number"
  concat_ToNumber :: "number \<Rightarrow> string \<Rightarrow> number"

definition to_number :: "conversions \<Rightarrow> json_amount \<Rightarrow> number" where
  "to_number conv a = (case a of JNumber n \<Rightarrow> n | JString s \<Rightarrow> ToNumber conv s)"

text \<open>\<open>n += a\<close>: an addition for a number, a concatenation for a string.\<close>

definition plus_assign :: "conversions \<Rightarrow> number \<Rightarrow> json_amount \<Rightarrow> number" where
  "plus_assign conv n a =
     (case a of JNumber m \<Rightarrow> js_add n m | JString s \<Rightarrow> concat_ToNumber conv n s)"

section \<open>ObjectIds\<close>

text \<open>
  An ObjectId is modelled by the natural number its twelve bytes denote. \<open>toString\<close>
  gives its 24 lower-case hexadecimal digits. \<open>castObjectId\<close> is the cast the models
  apply to a string in a filter or a document: a string of 24 hexadecimal digits of either
  case or a string of 12 (ASCII) characters denotes an ObjectId, any other string raises
  a CastError (\<open>None\<close>).
\<close>

type_synonym ObjectId = nat

definition hex_digit :: "nat \<Rightarrow> char" where
  "hex_digit n = ''0123456789abcdef'' ! n"

fun hex_string :: "nat \<Rightarrow> nat \<Rightarrow> string" where
  "hex_string 0 n = []"
| "hex_string (Suc k) n = hex_string k (n div 16) @ [hex_digit (n mod 16)]"

definition toString :: "ObjectId \<Rightarrow> string" where
  "toString oid = hex_string 24 oid"

definition hex_value :: "char \<Rightarrow> nat option" where
  "hex_value c =
     (let k = (of_char c :: nat)
      in if 48 \<le> k \<and> k \<le> 57 then Some (k - 48)
         else if 97 \<le> k \<and> k \<le> 102 then Some (k - 87)
         else if 65 \<le> k \<and> k \<le> 70 then Some (k - 55)
         else None)"

fun from_hex :: "nat \<Rightarrow> string \<Rightarrow> nat option" where
  "from_hex v [] = Some v"
| "from_hex v (c # cs) =
     (case hex_value c of None \<Rightarrow> None | Some d \<Rightarrow> from_hex (16 * v + d) cs)"

fun from_bytes :: "nat \<Rightarrow> string \<Rightarrow> nat option" where
  "from_bytes v [] = Some v"
| "from_bytes v (c # cs) =
     (if (of_char c :: nat) < 128 then from_bytes (256 * v + of_char c) cs else None)"

definition castObjectId :: "string \<Rightarrow> ObjectId option" where
  "castObjectId s =
     (if length s = 12 then from_bytes 0 s
      else if length s = 24 then from_hex 0 s
      else None)"

section \<open>Data model (models/Transaction, models/Wallet)\<close>

text \<open>Dates are integers: milliseconds since the epoch, as \<open>Date.getTime()\<close> gives
  them.\<close>

type_synonym Date = int

datatype tx_type = deposit | withdrawal | transfer

datatype tx_status = pending | completed | failed | cancelled

datatype flag_reason = high_frequency | large_amount | suspicious_pattern | manual_review

text \<open>The transaction schema; the field \<open>type\<close> of the source is \<open>tx_type\<close> here, and
  \<open>None\<close> in \<open>flagReason\<close> is \<open>null\<close>.\<close>

record Transaction =
  fromUserId :: "ObjectId option"
  toUserId :: "ObjectId option"
  tx_type :: tx_type
  amount :: number
  currency :: string
  description :: "string option"
  status :: tx_status
  isFlagged :: bool
  flagReason :: "flag_reason option"
  isDeleted :: bool
  deletedAt :: "Date option"
  createdAt :: Date
  updatedAt :: Date

text \<open>One element of \<open>wallet.balances\<close>.\<close>

record Balance =
  b_currency :: string
  b_amount :: number

text \<open>The wallet schema; its fields carry the prefix \<open>w_\<close> where the transaction
  schema has a field of the same name. The field \<open>userId\<close> is the key under which the
  database holds the wallet.\<close>

record Wallet =
  balances :: "Balance list"
  isActive :: bool
  w_isDeleted :: bool
  w_deletedAt :: "Date option"
  w_createdAt :: Date
  w_updatedAt :: Date

section \<open>The Transaction collection as the fraud service reads it\<close>

text \<open>
  Every awaited query either yields its result or throws. A query is given by the
  predicate its filter document denotes.
\<close>

datatype db_error = MongoError

record Transaction_model =
  countDocuments :: "(Transaction \<Rightarrow> bool) \<Rightarrow> db_error + nat"
  find_docs :: "(Transaction \<Rightarrow> bool) \<Rightarrow> db_error + Transaction list"

text \<open>Which of the two kinds of read throw; \<open>no_faults\<close> is a reachable store.\<close>

record faults =
  countDocuments_throws :: bool
  find_throws :: bool

definition no_faults :: faults where
  "no_faults = \<lparr>countDocuments_throws = False, find_throws = False\<rparr>"

definition unreachable :: faults where
  "unreachable = \<lparr>countDocuments_throws = True, find_throws = True\<rparr>"

definition Transaction_collection :: "faults \<Rightarrow> Transaction list \<Rightarrow> Transaction_model" where
  "Transaction_collection f txs =
     \<lparr>countDocuments = (\<lambda>q. if countDocuments_throws f then Inl MongoError
                              else Inr (length (filter q txs))),
      find_docs = (\<lambda>q. if find_throws f then Inl MongoError else Inr (filter q txs))\<rparr>"

section \<open>services/fraudDetection: checkFraudRules\<close>

definition HIGH_FREQUENCY_LIMIT :: nat where
  "HIGH_FREQUENCY_LIMIT = 5"

definition LARGE_AMOUNT_THRESHOLD :: number where
  "LARGE_AMOUNT_THRESHOLD = Num 10000"

definition SUSPICIOUS_PATTERN_TIME_WINDOW :: int where
  "SUSPICIOUS_PATTERN_TIME_WINDOW = 3600000"

record FraudCheck =
  fc_isFlagged :: bool
  fc_flagReason :: "flag_reason option"

definition flagged :: "flag_reason \<Rightarrow> FraudCheck" where
  "flagged r = \<lparr>fc_isFlagged = True, fc_flagReason = Some r\<rparr>"

definition not_flagged :: FraudCheck where
  "not_flagged = \<lparr>fc_isFlagged = False, fc_flagReason = None\<rparr>"

text \<open>The filter of rule 1:
  \<open>{$or: [{fromUserId}, {toUserId}], createdAt: {$gte: oneHourAgo}, isDeleted: false}\<close>.\<close>

definition recent_filter :: "ObjectId \<Rightarrow> Date \<Rightarrow> Transaction \<Rightarrow> bool" where
  "recent_filter uid oneHourAgo tx \<longleftrightarrow>
     (fromUserId tx = Some uid \<or> toUserId tx = Some uid) \<and> oneHourAgo \<le> createdAt tx
     \<and> \<not> isDeleted tx"

text \<open>The filter of rule 3:
  \<open>{fromUserId, type: 'withdrawal', createdAt: {$gte: oneHourAgo}, isDeleted: false}\<close>.\<close>

definition withdrawal_filter :: "ObjectId \<Rightarrow> Date \<Rightarrow> Transaction \<Rightarrow> bool" where
  "withdrawal_filter uid oneHourAgo tx \<longleftrightarrow>
     fromUserId tx = Some uid \<and> tx_type tx = withdrawal \<and> oneHourAgo \<le> createdAt tx
     \<and> \<not> isDeleted tx"

text \<open>\<open>recentWithdrawals.reduce((sum, tx) => sum + tx.amount, 0)\<close>.\<close>

definition total_amount :: "Transaction list \<Rightarrow> number" where
  "total_amount txs = foldl (\<lambda>sum tx. js_add sum (amount tx)) (Num 0) txs"

text \<open>
  The body of the \<open>try\<close> block; \<open>Inl\<close> is an exception thrown by a query. The amount
  enters only in the comparison \<open>amount >= LARGE_AMOUNT_THRESHOLD\<close>, which compares its
  number value: that value is the argument here. \<open>sendAlertEmail\<close> only writes to the
  console and catches its own errors, so it contributes nothing to the result.
\<close>

definition checkFraudRules_try ::
  "Transaction_model \<Rightarrow> Date \<Rightarrow> ObjectId \<Rightarrow> tx_type \<Rightarrow> number \<Rightarrow> db_error + FraudCheck" where
  "checkFraudRules_try T now uid transactionType amt =
     (let oneHourAgo = now - SUSPICIOUS_PATTERN_TIME_WINDOW in
      case countDocuments T (recent_filter uid oneHourAgo) of
        Inl e \<Rightarrow> Inl e
      | Inr recentTransactions \<Rightarrow>
          if recentTransactions \<ge> HIGH_FREQUENCY_LIMIT then Inr (flagged high_frequency)
          else if js_ge amt LARGE_AMOUNT_THRESHOLD then Inr (flagged large_amount)
          else if transactionType = withdrawal then
            (case find_docs T (withdrawal_filter uid oneHourAgo) of
               Inl e \<Rightarrow> Inl e
             | Inr recentWithdrawals \<Rightarrow>
                 (let totalWithdrawn = total_amount recentWithdrawals in
                  if length recentWithdrawals \<ge> 3 \<and> js_ge totalWithdrawn (Num 5000)
                  then Inr (flagged suspicious_pattern)
                  else Inr not_flagged))
          else Inr not_flagged)"

text \<open>The \<open>catch\<close> block turns every exception into the unflagged result.\<close>

definition checkFraudRules ::
  "Transaction_model \<Rightarrow> Date \<Rightarrow> ObjectId \<Rightarrow> tx_type \<Rightarrow> number \<Rightarrow> FraudCheck" where
  "checkFraudRules T now uid transactionType amt =
     (case checkFraudRules_try T now uid transactionType amt of
        Inl e \<Rightarrow> not_flagged
      | Inr r \<Rightarrow> r)"

subsection \<open>The rule engine as the specification words it\<close>





text \<open>A record as the routes store it, for concrete histories.\<close>

definition mk_tx ::
  "ObjectId option \<Rightarrow> ObjectId option \<Rightarrow> tx_type \<Rightarrow> number \<Rightarrow> Date \<Rightarrow> Transaction" where
  "mk_tx src dst kind amt t =
     \<lparr>fromUserId = src, toUserId = dst, tx_type = kind, amount = amt, currency = ''USD'',
      description = None, status = completed, isFlagged = True,
      flagReason = Some high_frequency, isDeleted = False, deletedAt = None, createdAt = t,
      updatedAt = t\<rparr>"

section \<open>services/fraudDetection: fraudDetectionJob\<close>

text \<open>
  \<open>populate\<close> replaces a reference by the user document it names, or by \<open>null\<close>
  when no such document exists; the collection of users is given by the predicate
  telling which identifiers have a document.
\<close>

definition populate :: "(ObjectId \<Rightarrow> bool) \<Rightarrow> ObjectId option \<Rightarrow> ObjectId option" where
  "populate User r = (case r of None \<Rightarrow> None | Some u \<Rightarrow> if User u then Some u else None)"

text \<open>\<open>tx.fromUserId?._id || tx.toUserId?._id\<close> on a populated record.\<close>

definition counted_user :: "(ObjectId \<Rightarrow> bool) \<Rightarrow> Transaction \<Rightarrow> ObjectId option" where
  "counted_user User tx =
     (case populate User (fromUserId tx) of
        Some u \<Rightarrow> Some u
      | None \<Rightarrow> populate User (toUserId tx))"

text \<open>\<open>userTransactionCount[userId] = (userTransactionCount[userId] || 0) + 1\<close>, the
  object kept as the list of its entries in insertion order.\<close>

fun bump :: "(ObjectId \<times> nat) list \<Rightarrow> ObjectId \<Rightarrow> (ObjectId \<times> nat) list" where
  "bump [] u = [(u, 1)]"
| "bump ((k, c) # m) u = (if k = u then (k, c + 1) # m else (k, c) # bump m u)"

definition count_step ::
  "(ObjectId \<Rightarrow> bool) \<Rightarrow> (ObjectId \<times> nat) list \<Rightarrow> Transaction \<Rightarrow> (ObjectId \<times> nat) list" where
  "count_step User m tx = (case counted_user User tx of None \<Rightarrow> m | Some u \<Rightarrow> bump m u)"

record SuspiciousUser =
  su_userId :: ObjectId
  transactionCount :: nat
  reason :: string

record ScanReport =
  scannedTransactions :: nat
  suspiciousUsers :: nat
  details :: "SuspiciousUser list"

text \<open>The filter \<open>{createdAt: {$gte: yesterday, $lt: today}, isDeleted: false}\<close>.\<close>

definition yesterday_filter :: "Date \<Rightarrow> Date \<Rightarrow> Transaction \<Rightarrow> bool" where
  "yesterday_filter yesterday today tx \<longleftrightarrow>
     yesterday \<le> createdAt tx \<and> createdAt tx < today \<and> \<not> isDeleted tx"

text \<open>
  The job, given the two local midnights \<open>yesterday\<close> and \<open>today\<close> it computes from
  the clock. \<open>Inl\<close> is the \<open>{error: ...}\<close> object of the \<open>catch\<close> block.
\<close>

definition fraudDetectionJob ::
  "Transaction_model \<Rightarrow> (ObjectId \<Rightarrow> bool) \<Rightarrow> Date \<Rightarrow> Date \<Rightarrow> db_error + ScanReport" where
  "fraudDetectionJob T User yesterday today =
     (case find_docs T (yesterday_filter yesterday today) of
        Inl e \<Rightarrow> Inl e
      | Inr yesterdayTransactions \<Rightarrow>
          (let userTransactionCount = foldl (count_step User) [] yesterdayTransactions;
               suspicious = map (\<lambda>(u, c). \<lparr>su_userId = u, transactionCount = c,
                                           reason = ''excessive_daily_transactions''\<rparr>)
                              (filter (\<lambda>(u, c). c > 20) userTransactionCount)
           in Inr \<lparr>scannedTransactions = length yesterdayTransactions,
                   suspiciousUsers = length suspicious,
                   details = suspicious\<rparr>))"

section \<open>middleware/validation: validateTransaction\<close>

text \<open>
  The request body of the three wallet routes; \<open>toUserId\<close> of a transfer, which the API
  declares required, is passed to the route beside the body. The middleware only reads
  the body: the value Joi converts and rounds is discarded, so the handlers see the
  amount as sent.
\<close>

record body =
  req_amount :: json_amount
  req_currency :: "string option"
  req_description :: "string option"

definition MAX_SAFE_INTEGER :: rat where
  "MAX_SAFE_INTEGER = 2 ^ 53 - 1"

text \<open>
  \<open>Joi.number().positive().precision(2)\<close> on a number: infinities and NaN are refused, a
  value outside the safe integers is refused, and the value is rounded by
  \<open>Math.round(value * 100) / 100\<close> before \<open>positive()\<close> tests it.
\<close>

definition joi_number_ok :: "number \<Rightarrow> bool" where
  "joi_number_ok n =
     (case n of
        Num v \<Rightarrow>
          - MAX_SAFE_INTEGER \<le> v \<and> v \<le> MAX_SAFE_INTEGER
          \<and> 0 < nearest_double (Math_round (nearest_double (v * 100)) / 100)
      | Infinity \<Rightarrow> False
      | MinusInfinity \<Rightarrow> False
      | NaN \<Rightarrow> False)"

definition validateTransaction :: "conversions \<Rightarrow> body \<Rightarrow> bool" where
  "validateTransaction conv b \<longleftrightarrow>
     (case req_amount b of
        JNumber n \<Rightarrow> joi_number_ok n
      | JString s \<Rightarrow> (case Joi_coerce conv s of None \<Rightarrow> False | Some n \<Rightarrow> joi_number_ok n))
     \<and> (case req_currency b of None \<Rightarrow> True
         | Some c \<Rightarrow> c \<in> set [''USD'', ''EUR'', ''BTC'', ''ETH''])
     \<and> (case req_description b of None \<Rightarrow> True | Some d \<Rightarrow> d \<noteq> [] \<and> length d \<le> 500)"

section \<open>routes/wallet\<close>

text \<open>
  The database: the wallets, keyed by \<open>userId\<close> (the schema declares it unique), and
  the transaction log in insertion order.
\<close>

record Database =
  wallets :: "ObjectId \<rightharpoonup> Wallet"
  transactions :: "Transaction list"

datatype exn = TypeError | ValidationError | CastError

datatype error_text = Text string | Exception_message exn | Joi_message

text \<open>The \<open>transaction\<close> object of a success response; amount and \<open>toUserId\<close> are the
  values of the request body as sent.\<close>

record Summary =
  s_amount :: json_amount
  s_currency :: string
  s_toUserId :: "string option"
  s_status :: tx_status
  s_isFlagged :: bool

text \<open>A response: \<open>res.status(code).json({error})\<close>, or the success body with its
  message, transaction summary and \<open>newBalance\<close>.\<close>

datatype response = Error nat error_text | Success string Summary number

text \<open>\<open>Array.prototype.findIndex\<close>; \<open>None\<close> is \<open>-1\<close>.\<close>

fun findIndex :: "('a \<Rightarrow> bool) \<Rightarrow> 'a list \<Rightarrow> nat option" where
  "findIndex P [] = None"
| "findIndex P (x # xs) =
     (if P x then Some 0 else (case findIndex P xs of None \<Rightarrow> None | Some i \<Rightarrow> Some (Suc i)))"

text \<open>The balance update of deposit and of the receiving leg of a transfer: \<open>+=\<close> on the
  first entry of the currency, or a new entry, whose amount is cast to a number.\<close>

definition credit :: "conversions \<Rightarrow> Balance list \<Rightarrow> string \<Rightarrow> json_amount \<Rightarrow> Balance list" where
  "credit conv bs cur amt =
     (case findIndex (\<lambda>b. b_currency b = cur) bs of
        Some i \<Rightarrow> bs[i := (bs ! i)\<lparr>b_amount := plus_assign conv (b_amount (bs ! i)) amt\<rparr>]
      | None \<Rightarrow> bs @ [\<lparr>b_currency = cur, b_amount = to_number conv amt\<rparr>])"

text \<open>\<open>balance.amount -= amount\<close> on the element \<open>find\<close> returned: the first entry of
  the currency, changed in place.\<close>

definition debit :: "conversions \<Rightarrow> Balance list \<Rightarrow> string \<Rightarrow> json_amount \<Rightarrow> Balance list" where
  "debit conv bs cur amt =
     (case findIndex (\<lambda>b. b_currency b = cur) bs of
        Some i \<Rightarrow> bs[i := (bs ! i)\<lparr>b_amount := js_sub (b_amount (bs ! i)) (to_number conv amt)\<rparr>]
      | None \<Rightarrow> bs)"

text \<open>The balance of a currency: the first entry's amount, zero when there is none.\<close>

definition getBalance :: "Balance list \<Rightarrow> string \<Rightarrow> number" where
  "getBalance bs cur =
     (case List.find (\<lambda>b. b_currency b = cur) bs of None \<Rightarrow> Num 0 | Some b \<Rightarrow> b_amount b)"

text \<open>Schema validation on save: \<open>min: 0\<close> on every balance amount.\<close>

definition validate_wallet :: "Wallet \<Rightarrow> bool" where
  "validate_wallet w \<longleftrightarrow> list_all (\<lambda>b. js_ge (b_amount b) (Num 0)) (balances w)"

text \<open>\<open>walletSchema.pre('save')\<close>.\<close>

definition wallet_pre_save :: "bool \<Rightarrow> Date \<Rightarrow> Wallet \<Rightarrow> Wallet" where
  "wallet_pre_save isNew now w =
     (let w1 = (if isNew \<and> length (balances w) = 0
                then w\<lparr>balances := balances w @ [\<lparr>b_currency = ''USD'', b_amount = Num 0\<rparr>]\<rparr>
                else w)
      in w1\<lparr>w_updatedAt := now\<rparr>)"

text \<open>
  Schema validation of a transaction on save: \<open>min: 0.01\<close> on the amount, the two
  conditional \<open>required\<close>s, the required currency, \<open>maxlength: 500\<close>, and the \<open>enum\<close> of
  \<open>flagReason\<close>, which a \<open>null\<close> does not satisfy.
\<close>

definition validate_transaction :: "Transaction \<Rightarrow> bool" where
  "validate_transaction t \<longleftrightarrow>
     js_ge (amount t) (round_number (1 / 100))
     \<and> (if tx_type t = transfer \<or> tx_type t = withdrawal then fromUserId t \<noteq> None else True)
     \<and> (if tx_type t = transfer \<or> tx_type t = deposit then toUserId t \<noteq> None else True)
     \<and> currency t \<noteq> []
     \<and> (case description t of None \<Rightarrow> True | Some d \<Rightarrow> length d \<le> 500)
     \<and> flagReason t \<noteq> None"

text \<open>\<open>transactionSchema.pre('save')\<close>.\<close>

definition transaction_pre_save :: "Date \<Rightarrow> Transaction \<Rightarrow> Transaction" where
  "transaction_pre_save now t = t\<lparr>updatedAt := now\<rparr>"

text \<open>\<open>new Transaction({...})\<close> with the schema defaults, the amount cast to a number;
  the clock reads \<open>now\<close> throughout one request.\<close>

definition new_Transaction ::
  "Date \<Rightarrow> ObjectId option \<Rightarrow> ObjectId option \<Rightarrow> tx_type \<Rightarrow> number \<Rightarrow> string \<Rightarrow> string option
   \<Rightarrow> FraudCheck \<Rightarrow> Transaction" where
  "new_Transaction now src dst kind amt cur descr fraudCheck =
     \<lparr>fromUserId = src, toUserId = dst, tx_type = kind, amount = amt, currency = cur,
      description = descr, status = pending, isFlagged = fc_isFlagged fraudCheck,
      flagReason = fc_flagReason fraudCheck, isDeleted = False, deletedAt = None,
      createdAt = now, updatedAt = now\<rparr>"

definition summary :: "Transaction \<Rightarrow> json_amount \<Rightarrow> string option \<Rightarrow> Summary" where
  "summary t amt dst = \<lparr>s_amount = amt, s_currency = currency t, s_toUserId = dst,
                        s_status = status t, s_isFlagged = isFlagged t\<rparr>"

definition currency_or_default :: "body \<Rightarrow> string" where
  "currency_or_default b = (case req_currency b of None \<Rightarrow> ''USD'' | Some c \<Rightarrow> c)"

text \<open>
  The handlers take the conversions, the faults of the fraud service's reads, the clock,
  the authenticated user, the request and the database, and return the response with the
  database after the request. An exception inside \<open>try\<close> aborts the session: the
  database is the one before the request and the response is 500 with the exception's
  message. The \<open>newBalance\<close> of a deposit reads the entry of the currency after the
  credit, which then exists.
\<close>

definition deposit_handler ::
  "conversions \<Rightarrow> faults \<Rightarrow> Date \<Rightarrow> ObjectId \<Rightarrow> body \<Rightarrow> Database \<Rightarrow> response \<times> Database" where
  "deposit_handler conv f now user b db =
     (let amt = req_amount b; cur = currency_or_default b;
          fraudCheck = checkFraudRules (Transaction_collection f (transactions db)) now user
                         deposit (to_number conv amt);
          transaction = new_Transaction now None (Some user) deposit (to_number conv amt) cur
                          (req_description b) fraudCheck
      in case wallets db user of
           None \<Rightarrow> (Error 500 (Exception_message TypeError), db)
         | Some wallet \<Rightarrow>
             (let wallet' = wallet\<lparr>balances := credit conv (balances wallet) cur amt\<rparr>;
                  transaction' = transaction\<lparr>status := completed\<rparr>
              in if \<not> validate_wallet wallet' then (Error 500 (Exception_message ValidationError), db)
                 else if \<not> validate_transaction transaction'
                 then (Error 500 (Exception_message ValidationError), db)
                 else (Success ''Deposit successful'' (summary transaction' amt None)
                         (getBalance (balances wallet') cur),
                       db\<lparr>wallets := (wallets db)(user \<mapsto> wallet_pre_save False now wallet'),
                          transactions := transactions db
                                          @ [transaction_pre_save now transaction']\<rparr>)))"

definition withdraw_handler ::
  "conversions \<Rightarrow> faults \<Rightarrow> Date \<Rightarrow> ObjectId \<Rightarrow> body \<Rightarrow> Database \<Rightarrow> response \<times> Database" where
  "withdraw_handler conv f now user b db =
     (let amt = req_amount b; cur = currency_or_default b;
          fraudCheck = checkFraudRules (Transaction_collection f (transactions db)) now user
                         withdrawal (to_number conv amt)
      in case wallets db user of
           None \<Rightarrow> (Error 500 (Exception_message TypeError), db)
         | Some wallet \<Rightarrow>
             (case List.find (\<lambda>x. b_currency x = cur) (balances wallet) of
                None \<Rightarrow> (Error 400 (Text ''Insufficient funds''), db)
              | Some balance \<Rightarrow>
                  if js_lt (b_amount balance) (to_number conv amt)
                  then (Error 400 (Text ''Insufficient funds''), db)
                  else
                    (let transaction = new_Transaction now (Some user) None withdrawal
                                         (to_number conv amt) cur (req_description b) fraudCheck;
                         wallet' = wallet\<lparr>balances := debit conv (balances wallet) cur amt\<rparr>;
                         transaction' = transaction\<lparr>status := completed\<rparr>
                     in if \<not> validate_wallet wallet'
                        then (Error 500 (Exception_message ValidationError), db)
                        else if \<not> validate_transaction transaction'
                        then (Error 500 (Exception_message ValidationError), db)
                        else (Success ''Withdrawal successful'' (summary transaction' amt None)
                                (js_sub (b_amount balance) (to_number conv amt)),
                              db\<lparr>wallets := (wallets db)(user \<mapsto> wallet_pre_save False now wallet'),
                                 transactions := transactions db
                                                 @ [transaction_pre_save now transaction']\<rparr>))))"

text \<open>
  The transfer handler. The guard compares the string of the user's id with the string of
  the body; the two lookups cast their filters, the recipient's from the string of the
  body. The two wallets are saved in the order of the array given to \<open>Promise.all\<close>.
\<close>

definition transfer_handler ::
  "conversions \<Rightarrow> faults \<Rightarrow> Date \<Rightarrow> ObjectId \<Rightarrow> string \<Rightarrow> body \<Rightarrow> Database
   \<Rightarrow> response \<times> Database" where
  "transfer_handler conv f now user toId b db =
     (let amt = req_amount b; cur = currency_or_default b
      in if toString user = toId then (Error 400 (Text ''Cannot transfer to yourself''), db)
         else
           (let fraudCheck = checkFraudRules (Transaction_collection f (transactions db)) now
                               user transfer (to_number conv amt)
            in case castObjectId toId of
                 None \<Rightarrow> (Error 500 (Exception_message CastError), db)
               | Some receiver \<Rightarrow>
            (case wallets db receiver of
                 None \<Rightarrow> (Error 404 (Text ''Recipient wallet not found''), db)
               | Some receiverWallet \<Rightarrow>
                   (case wallets db user of
                      None \<Rightarrow> (Error 500 (Exception_message TypeError), db)
                    | Some senderWallet \<Rightarrow>
                        (case List.find (\<lambda>x. b_currency x = cur) (balances senderWallet) of
                           None \<Rightarrow> (Error 400 (Text ''Insufficient funds''), db)
                         | Some senderBalance \<Rightarrow>
                             if js_lt (b_amount senderBalance) (to_number conv amt)
                             then (Error 400 (Text ''Insufficient funds''), db)
                             else
                               (let transaction = new_Transaction now (Some user) (Some receiver)
                                                    transfer (to_number conv amt) cur
                                                    (req_description b) fraudCheck;
                                    senderWallet' = senderWallet
                                      \<lparr>balances := debit conv (balances senderWallet) cur amt\<rparr>;
                                    receiverWallet' = receiverWallet
                                      \<lparr>balances := credit conv (balances receiverWallet) cur amt\<rparr>;
                                    transaction' = transaction\<lparr>status := completed\<rparr>
                                in if \<not> validate_wallet senderWallet'
                                      \<or> \<not> validate_wallet receiverWallet'
                                   then (Error 500 (Exception_message ValidationError), db)
                                   else if \<not> validate_transaction transaction'
                                   then (Error 500 (Exception_message ValidationError), db)
                                   else (Success ''Transfer successful''
                                           (summary transaction' amt (Some toId))
                                           (js_sub (b_amount senderBalance) (to_number conv amt)),
                                         db\<lparr>wallets := (wallets db)
                                               (user \<mapsto> wallet_pre_save False now senderWallet',
                                                receiver \<mapsto> wallet_pre_save False now receiverWallet'),
                                            transactions := transactions db
                                              @ [transaction_pre_save now transaction']\<rparr>)))))))"

text \<open>The routes: \<open>validateTransaction\<close> runs before the handler and answers 400 with
  Joi's message when the body is rejected; \<open>toUserId\<close> is a \<open>Joi.string()\<close>, which
  the empty string is not.\<close>

definition post_deposit ::
  "conversions \<Rightarrow> faults \<Rightarrow> Date \<Rightarrow> ObjectId \<Rightarrow> body \<Rightarrow> Database \<Rightarrow> response \<times> Database" where
  "post_deposit conv f now user b db =
     (if validateTransaction conv b then deposit_handler conv f now user b db
      else (Error 400 Joi_message, db))"

definition post_withdraw ::
  "conversions \<Rightarrow> faults \<Rightarrow> Date \<Rightarrow> ObjectId \<Rightarrow> body \<Rightarrow> Database \<Rightarrow> response \<times> Database" where
  "post_withdraw conv f now user b db =
     (if validateTransaction conv b then withdraw_handler conv f now user b db
      else (Error 400 Joi_message, db))"

definition post_transfer ::
  "conversions \<Rightarrow> faults \<Rightarrow> Date \<Rightarrow> ObjectId \<Rightarrow> string \<Rightarrow> body \<Rightarrow> Database
   \<Rightarrow> response \<times> Database" where
  "post_transfer conv f now user toId b db =
     (if validateTransaction conv b \<and> toId \<noteq> [] then transfer_handler conv f now user toId b db
      else (Error 400 Joi_message, db))"

subsection \<open>Sequences of requests\<close>

datatype request =
    DepositReq ObjectId body
  | WithdrawReq ObjectId body
  | TransferReq ObjectId string body

fun serve :: "conversions \<Rightarrow> faults \<times> Date \<times> request \<Rightarrow> Database \<Rightarrow> response \<times> Database" where
  "serve conv (f, now, DepositReq user b) db = post_deposit conv f now user b db"
| "serve conv (f, now, WithdrawReq user b) db = post_withdraw conv f now user b db"
| "serve conv (f, now, TransferReq user toId b) db = post_transfer conv f now user toId b db"

fun serve_all :: "conversions \<Rightarrow> (faults \<times> Date \<times> request) list \<Rightarrow> Database \<Rightarrow> Database" where
  "serve_all conv [] db = db"
| "serve_all conv (r # rs) db = serve_all conv rs (snd (serve conv r db))"

text \<open>Every entry of every wallet is non-negative.\<close>

definition non_negative :: "Database \<Rightarrow> bool" where
  "non_negative db \<longleftrightarrow>
     (\<forall>u w. wallets db u = Some w \<longrightarrow> (\<forall>e \<in> set (balances w). js_ge (b_amount e) (Num 0)))"

section \<open>Notions the properties are stated with\<close>

text \<open>The balance of a user in a currency: that of the wallet's entry, zero when the
  user has no wallet or the wallet no entry.\<close>

definition balance_in :: "Database \<Rightarrow> ObjectId \<Rightarrow> string \<Rightarrow> number" where
  "balance_in db u cur =
     (case wallets db u of None \<Rightarrow> Num 0 | Some w \<Rightarrow> getBalance (balances w) cur)"

text \<open>The amount a user's wallet holds in an entry of a currency, if it has one.\<close>

definition held :: "Database \<Rightarrow> ObjectId \<Rightarrow> string \<Rightarrow> number option" where
  "held db u cur =
     (case wallets db u of
        None \<Rightarrow> None
      | Some w \<Rightarrow> map_option b_amount (List.find (\<lambda>b. b_currency b = cur) (balances w)))"

text \<open>The user takes part in a record, as source or as destination.\<close>

definition participant :: "ObjectId \<Rightarrow> Transaction \<Rightarrow> bool" where
  "participant u tx \<longleftrightarrow> fromUserId tx = Some u \<or> toUserId tx = Some u"

text \<open>The number of records of the scan window that the job counts for a user.\<close>

definition daily_count ::
  "(ObjectId \<Rightarrow> bool) \<Rightarrow> Date \<Rightarrow> Date \<Rightarrow> Transaction list \<Rightarrow> ObjectId \<Rightarrow> nat" where
  "daily_count User yesterday today txs u =
     length (filter (\<lambda>tx. yesterday_filter yesterday today tx \<and> counted_user User tx = Some u) txs)"

definition tally_of :: "(ObjectId \<times> nat) list \<Rightarrow> ObjectId \<Rightarrow> nat" where
  "tally_of m u = (case map_of m u of None \<Rightarrow> 0 | Some c \<Rightarrow> c)"

section \<open>Concrete conversions, histories, wallets and requests\<close>

text \<open>
  An instance of the conversions that is exact on the strings of decimal digits and, for
  the concatenation, on the whole numbers below \<open>10^21\<close>, which print as their digits;
  any other string it takes for a string that is no number. The concrete requests below
  carry numbers, or strings of digits.
\<close>

definition digit_string :: "string \<Rightarrow> bool" where
  "digit_string s \<longleftrightarrow>
     s \<noteq> [] \<and> list_all (\<lambda>c. 48 \<le> (of_char c :: nat) \<and> (of_char c :: nat) \<le> 57) s"

definition nat_of_digits :: "string \<Rightarrow> nat" where
  "nat_of_digits s = foldl (\<lambda>n c. 10 * n + (of_char c - 48)) 0 s"

fun digits_of :: "nat \<Rightarrow> string" where
  "digits_of n =
     (if n < 10 then [''0123456789'' ! n]
      else digits_of (n div 10) @ [''0123456789'' ! (n mod 10)])"

declare digits_of.simps [simp del]

definition digit_strings :: conversions where
  "digit_strings =
     \<lparr>Joi_coerce = (\<lambda>s. if digit_string s then Some (round_number (of_nat (nat_of_digits s)))
                         else None),
      ToNumber = (\<lambda>s. if digit_string s then round_number (of_nat (nat_of_digits s)) else NaN),
      concat_ToNumber =
        (\<lambda>n s. case n of
                  Num k \<Rightarrow>
                    if digit_string s \<and> 0 \<le> k \<and> k < 10 ^ 21 \<and> of_int \<lfloor>k\<rfloor> = k
                    then round_number (of_nat (nat_of_digits (digits_of (nat \<lfloor>k\<rfloor>) @ s)))
                    else NaN
                | Infinity \<Rightarrow> NaN
                | MinusInfinity \<Rightarrow> NaN
                | NaN \<Rightarrow> NaN)\<rparr>"

definition every_user :: "ObjectId \<Rightarrow> bool" where
  "every_user u = True"

definition mk_wallet :: "Balance list \<Rightarrow> bool \<Rightarrow> Wallet" where
  "mk_wallet bs deleted =
     \<lparr>balances = bs, isActive = True, w_isDeleted = deleted, w_deletedAt = None,
      w_createdAt = 0, w_updatedAt = 0\<rparr>"

definition usd :: "rat \<Rightarrow> Balance" where
  "usd a = \<lparr>b_currency = ''USD'', b_amount = Num a\<rparr>"

text \<open>User 1 holds 50,000 USD, user 2 holds 5 USD in a soft-deleted wallet, user 3 has a
  wallet without entries, user 4 has no wallet; the log is empty.\<close>

definition db0 :: Database where
  "db0 = \<lparr>wallets = [1 \<mapsto> mk_wallet [usd 50000] False, 2 \<mapsto> mk_wallet [usd 5] True,
                     3 \<mapsto> mk_wallet [] False],
          transactions = []\<rparr>"

text \<open>User 1 holds \<open>4.5 * 10^16\<close> USD, where neighbouring doubles are 8 apart.\<close>

definition db_big :: Database where
  "db_big = \<lparr>wallets = [1 \<mapsto> mk_wallet [usd 45000000000000000] False,
                        3 \<mapsto> mk_wallet [] False],
             transactions = []\<rparr>"

definition pay :: "rat \<Rightarrow> body" where
  "pay a = \<lparr>req_amount = JNumber (Num a), req_currency = None, req_description = None\<rparr>"

definition pay_string :: "string \<Rightarrow> body" where
  "pay_string s = \<lparr>req_amount = JString s, req_currency = None, req_description = None\<rparr>"

definition three_withdrawals :: "Transaction list" where
  "three_withdrawals =
     [mk_tx (Some 1) None withdrawal (Num 2000) 1000000,
      mk_tx (Some 1) None withdrawal (Num 2000) 1000001,
      mk_tx (Some 1) None withdrawal (Num 1000) 1000002]"

definition five_records :: "Transaction list" where
  "five_records = three_withdrawals
     @ [mk_tx None (Some 1) deposit (Num 10) 1000003, mk_tx None (Some 1) deposit (Num 10) 1000004]"

text \<open>Withdrawals of 2048.98, 2048.99 and 902.03, each the double of its decimal.\<close>

definition decimal_withdrawals :: "Transaction list" where
  "decimal_withdrawals =
     [mk_tx (Some 1) None withdrawal (round_number (204898 / 100)) 1000000,
      mk_tx (Some 1) None withdrawal (round_number (204899 / 100)) 1000001,
      mk_tx (Some 1) None withdrawal (round_number (90203 / 100)) 1000002]"

definition transfers_1_to_2 :: "Transaction list" where
  "transfers_1_to_2 = replicate 21 (mk_tx (Some 1) (Some 2) transfer (Num 10) 1000)"

definition deposits_21_19 :: "Transaction list" where
  "deposits_21_19 = replicate 21 (mk_tx None (Some 1) deposit (Num 10) 1000)
                    @ replicate 19 (mk_tx None (Some 2) deposit (Num 10) 1000)"

definition requests0 :: "(faults \<times> Date \<times> request) list" where
  "requests0 = [(no_faults, 5000, DepositReq 1 (pay 20000)),
                (no_faults, 5001, WithdrawReq 1 (pay 80000)),
                (no_faults, 5002, TransferReq 1 (toString 2) (pay 15000))]"

text \<open>User 10, whose id prints as \<open>00000000000000000000000a\<close>, holds 50,000 USD.\<close>

definition db_self :: Database where
  "db_self = \<lparr>wallets = [10 \<mapsto> mk_wallet [usd 50000] False], transactions = []\<rparr>"

section \<open>Evaluation of concrete inputs\<close>

lemma bits_0: "bits 0 = 0"
  by (simp add: bits.simps)

lemma bits_Suc_0: "bits (Suc 0) = Suc 0"
  by (simp add: bits.simps [of "Suc 0"] bits_0)

lemma bits_numeral: "bits (numeral k) = Suc (bits (numeral k div 2))"
  by (subst bits.simps) simp

lemma floor_rat_numeral_div: "\<lfloor>numeral a / numeral b :: rat\<rfloor> = numeral a div numeral b"
  using floor_divide_of_int_eq [of "numeral a" "numeral b", where ?'a = rat] by simp

lemma ceiling_rat_numeral_div:
  "\<lceil>numeral a / numeral b :: rat\<rceil> = - (- numeral a div numeral b)"
  using ceiling_divide_eq_div [of "numeral a" "numeral b", where ?'a = rat] by simp

lemma floor_rat_one_div: "\<lfloor>1 / numeral b :: rat\<rfloor> = 1 div numeral b"
  using floor_divide_of_int_eq [of 1 "numeral b", where ?'a = rat] by simp

lemma ceiling_rat_one_div: "\<lceil>1 / numeral b :: rat\<rceil> = - (- 1 div numeral b)"
  using ceiling_divide_eq_div [of 1 "numeral b", where ?'a = rat] by simp

lemmas num_eval = round_number_def nearest_double_def round_half_even_def exponent_of_def
  pow2_def bits_0 bits_Suc_0 bits_numeral floor_rat_numeral_div ceiling_rat_numeral_div
  floor_rat_one_div ceiling_rat_one_div Math_round_def js_sub_def js_ge_def Let_def

lemmas route_defs = post_deposit_def post_withdraw_def post_transfer_def deposit_handler_def
  withdraw_handler_def transfer_handler_def validateTransaction_def joi_number_ok_def
  MAX_SAFE_INTEGER_def currency_or_default_def new_Transaction_def summary_def
  validate_wallet_def validate_transaction_def wallet_pre_save_def transaction_pre_save_def
  credit_def debit_def getBalance_def to_number_def plus_assign_def

lemmas fraud_defs = checkFraudRules_def checkFraudRules_try_def Transaction_collection_def
  no_faults_def unreachable_def recent_filter_def withdrawal_filter_def total_amount_def
  flagged_def not_flagged_def HIGH_FREQUENCY_LIMIT_def LARGE_AMOUNT_THRESHOLD_def
  SUSPICIOUS_PATTERN_TIME_WINDOW_def mk_tx_def

lemmas data_defs = mk_wallet_def usd_def db0_def db_big_def pay_def pay_string_def
  three_withdrawals_def five_records_def decimal_withdrawals_def

section \<open>Properties of checkFraudRules\<close>

lemma count_reachable:
  "countDocuments (Transaction_collection no_faults txs) q = Inr (length (filter q txs))"
  by (simp add: Transaction_collection_def no_faults_def)

lemma find_reachable:
  "find_docs (Transaction_collection no_faults txs) q = Inr (filter q txs)"
  by (simp add: Transaction_collection_def no_faults_def)




text \<open>With a reachable store the function is the chain of its three rules.\<close>

lemma fraud_reachable:
  "checkFraudRules (Transaction_collection no_faults txs) now uid kind amt =
     (if 5 \<le> length (filter (recent_filter uid (now - 3600000)) txs) then flagged high_frequency
      else if js_ge amt (Num 10000) then flagged large_amount
      else if kind = withdrawal
              \<and> 3 \<le> length (filter (withdrawal_filter uid (now - 3600000)) txs)
              \<and> js_ge (total_amount (filter (withdrawal_filter uid (now - 3600000)) txs))
                   (Num 5000)
           then flagged suspicious_pattern
      else not_flagged)"
  by (simp add: checkFraudRules_def checkFraudRules_try_def count_reachable find_reachable
      HIGH_FREQUENCY_LIMIT_def LARGE_AMOUNT_THRESHOLD_def SUSPICIOUS_PATTERN_TIME_WINDOW_def)


lemma js_lt_not_ge: "js_lt a b \<Longrightarrow> \<not> js_ge a b"
  by (simp add: js_ge_def)

text \<open>
  C1, as the code has it: for a user with exactly three non-deleted withdrawals in the
  last hour whose amounts, added as numbers in the order of the records, total at least
  5,000, and with fewer than five non-deleted records of any kind in the last hour, the
  evaluation of a further withdrawal of a positive amount below 10,000 against a
  reachable history returns isFlagged = true with reason suspicious_pattern.
\<close>

theorem suspicious_pattern_fourth_withdrawal:
  assumes "length (filter (withdrawal_filter uid (now - 3600000)) txs) = 3"
    and "js_ge (total_amount (filter (withdrawal_filter uid (now - 3600000)) txs)) (Num 5000)"
    and "length (filter (recent_filter uid (now - 3600000)) txs) < 5"
    and "js_lt (Num 0) amt" and "js_lt amt (Num 10000)"
  shows "checkFraudRules (Transaction_collection no_faults txs) now uid withdrawal amt
         = flagged suspicious_pattern"
  using assms js_lt_not_ge [OF assms(5)] by (simp add: fraud_reachable)

text \<open>Three withdrawals of 2,000, 2,000 and 1,000 by user 1, then a withdrawal of 1.\<close>

theorem suspicious_pattern_fourth_withdrawal_witness:
  "length (filter (withdrawal_filter 1 (4000000 - 3600000)) three_withdrawals) = 3
   \<and> js_ge (total_amount (filter (withdrawal_filter 1 (4000000 - 3600000)) three_withdrawals))
        (Num 5000)
   \<and> length (filter (recent_filter 1 (4000000 - 3600000)) three_withdrawals) < 5
   \<and> js_lt (Num 0) (Num 1) \<and> js_lt (Num 1) (Num 10000)
   \<and> checkFraudRules (Transaction_collection no_faults three_withdrawals) 4000000 1 withdrawal
        (Num 1) = flagged suspicious_pattern"
proof -
  have a: "length (filter (withdrawal_filter 1 (4000000 - 3600000)) three_withdrawals) = 3"
    by (simp add: three_withdrawals_def mk_tx_def withdrawal_filter_def)
  have b: "js_ge (total_amount (filter (withdrawal_filter 1 (4000000 - 3600000))
             three_withdrawals)) (Num 5000)"
    by (simp add: three_withdrawals_def mk_tx_def withdrawal_filter_def total_amount_def
        num_eval)
  have c: "length (filter (recent_filter 1 (4000000 - 3600000)) three_withdrawals) < 5"
    by (simp add: three_withdrawals_def mk_tx_def recent_filter_def)
  have d: "js_lt (Num 0) (Num 1)" and e: "js_lt (Num 1) (Num 10000)" by simp_all
  from suspicious_pattern_fourth_withdrawal [OF a b c d e] a b c d e show ?thesis by blast
qed

text \<open>
  The claim as stated fails: after the same three withdrawals a fourth withdrawal of
  10,000 is reported as large_amount; with two deposits beside the three withdrawals a
  fourth withdrawal of 1 is reported as high_frequency; and after three withdrawals of
  2048.98, 2048.99 and 902.03, whose decimal amounts total 5,000, a fourth withdrawal of 1
  is not flagged, because the three doubles add up to less than 5,000.
\<close>

theorem fourth_withdrawal_not_always_suspicious:
  "length (filter (withdrawal_filter 1 (4000000 - 3600000)) three_withdrawals) = 3
   \<and> checkFraudRules (Transaction_collection no_faults three_withdrawals) 4000000 1 withdrawal
        (Num 10000) = flagged large_amount
   \<and> flagged large_amount \<noteq> flagged suspicious_pattern
   \<and> length (filter (withdrawal_filter 1 (4000000 - 3600000)) five_records) = 3
   \<and> checkFraudRules (Transaction_collection no_faults five_records) 4000000 1 withdrawal
        (Num 1) = flagged high_frequency
   \<and> flagged high_frequency \<noteq> flagged suspicious_pattern
   \<and> length (filter (withdrawal_filter 1 (4000000 - 3600000)) decimal_withdrawals) = 3
   \<and> (204898 / 100 + 204899 / 100 + 90203 / 100 :: rat) = 5000
   \<and> checkFraudRules (Transaction_collection no_faults decimal_withdrawals) 4000000 1
        withdrawal (Num 1) = not_flagged
   \<and> not_flagged \<noteq> flagged suspicious_pattern"
proof -
  have a: "length (filter (withdrawal_filter 1 (4000000 - 3600000)) three_withdrawals) = 3
     \<and> checkFraudRules (Transaction_collection no_faults three_withdrawals) 4000000 1
          withdrawal (Num 10000) = flagged large_amount
     \<and> flagged large_amount \<noteq> flagged suspicious_pattern"
    by (simp add: fraud_reachable three_withdrawals_def mk_tx_def withdrawal_filter_def
        recent_filter_def flagged_def js_ge_def)
  have b: "length (filter (withdrawal_filter 1 (4000000 - 3600000)) five_records) = 3
     \<and> checkFraudRules (Transaction_collection no_faults five_records) 4000000 1 withdrawal
          (Num 1) = flagged high_frequency
     \<and> flagged high_frequency \<noteq> flagged suspicious_pattern"
    by (simp add: fraud_reachable five_records_def three_withdrawals_def mk_tx_def
        withdrawal_filter_def recent_filter_def flagged_def)
  have c: "length (filter (withdrawal_filter 1 (4000000 - 3600000)) decimal_withdrawals) = 3
     \<and> (204898 / 100 + 204899 / 100 + 90203 / 100 :: rat) = 5000
     \<and> checkFraudRules (Transaction_collection no_faults decimal_withdrawals) 4000000 1
          withdrawal (Num 1) = not_flagged
     \<and> not_flagged \<noteq> flagged suspicious_pattern"
    by (simp add: fraud_reachable decimal_withdrawals_def mk_tx_def withdrawal_filter_def
        recent_filter_def total_amount_def num_eval flagged_def not_flagged_def)
  from a b c show ?thesis by blast
qed



section \<open>Lists of balances\<close>

lemma findIndex_None: "findIndex P xs = None \<longleftrightarrow> List.find P xs = None"
  by (induction xs) (auto split: option.splits)

lemma findIndex_Some:
  "findIndex P xs = Some i \<Longrightarrow> i < length xs \<and> P (xs ! i) \<and> List.find P xs = Some (xs ! i)"
  by (induction xs arbitrary: i) (auto split: option.splits if_splits)

lemma find_findIndex:
  "List.find P xs = Some x \<Longrightarrow> \<exists>i. findIndex P xs = Some i \<and> xs ! i = x"
  by (induction xs) (auto split: option.splits if_splits)

lemma find_update_first:
  "findIndex P xs = Some i \<Longrightarrow> P y \<Longrightarrow> List.find P (xs[i := y]) = Some y"
  by (induction xs arbitrary: i) (auto split: option.splits if_splits)

lemma find_append_None:
  "List.find P xs = None \<Longrightarrow> List.find P (xs @ ys) = List.find P ys"
  by (induction xs) (auto split: if_splits)

lemma find_in_set: "List.find P xs = Some x \<Longrightarrow> x \<in> set xs"
  by (induction xs) (auto split: if_splits)

lemma getBalance_credit_absent:
  assumes "List.find (\<lambda>b. b_currency b = cur) bs = None"
  shows "credit conv bs cur amt = bs @ [\<lparr>b_currency = cur, b_amount = to_number conv amt\<rparr>]"
    and "getBalance (credit conv bs cur amt) cur = to_number conv amt"
proof -
  from assms have n: "findIndex (\<lambda>b. b_currency b = cur) bs = None"
    by (simp add: findIndex_None)
  then show "credit conv bs cur amt = bs @ [\<lparr>b_currency = cur, b_amount = to_number conv amt\<rparr>]"
    by (simp add: credit_def)
  then show "getBalance (credit conv bs cur amt) cur = to_number conv amt"
    using assms by (simp add: getBalance_def find_append_None)
qed

lemma find_credit_present:
  assumes "List.find (\<lambda>b. b_currency b = cur) bs = Some e"
  shows "List.find (\<lambda>b. b_currency b = cur) (credit conv bs cur amt)
           = Some (e\<lparr>b_amount := plus_assign conv (b_amount e) amt\<rparr>)"
proof -
  from find_findIndex [OF assms] obtain i
    where i: "findIndex (\<lambda>b. b_currency b = cur) bs = Some i" "bs ! i = e"
    by blast
  from findIndex_Some [OF i(1)]
    find_update_first [OF i(1), of "(bs ! i)\<lparr>b_amount := plus_assign conv (b_amount (bs ! i)) amt\<rparr>"]
  show ?thesis using i by (simp add: credit_def)
qed

lemma find_debit:
  assumes "List.find (\<lambda>b. b_currency b = cur) bs = Some e"
  shows "List.find (\<lambda>b. b_currency b = cur) (debit conv bs cur amt)
           = Some (e\<lparr>b_amount := js_sub (b_amount e) (to_number conv amt)\<rparr>)"
proof -
  from find_findIndex [OF assms] obtain i
    where i: "findIndex (\<lambda>b. b_currency b = cur) bs = Some i" "bs ! i = e"
    by blast
  from findIndex_Some [OF i(1)]
    find_update_first [OF i(1),
      of "(bs ! i)\<lparr>b_amount := js_sub (b_amount (bs ! i)) (to_number conv amt)\<rparr>"]
  show ?thesis using i by (simp add: debit_def)
qed

lemma getBalance_credit_present:
  "List.find (\<lambda>b. b_currency b = cur) bs = Some e
   \<Longrightarrow> getBalance (credit conv bs cur amt) cur = plus_assign conv (b_amount e) amt"
  by (simp add: getBalance_def find_credit_present)

lemma getBalance_debit:
  "List.find (\<lambda>b. b_currency b = cur) bs = Some e
   \<Longrightarrow> getBalance (debit conv bs cur amt) cur = js_sub (b_amount e) (to_number conv amt)"
  by (simp add: getBalance_def find_debit)

lemma validated_debit:
  assumes "validate_wallet (w\<lparr>balances := debit conv bs cur amt\<rparr>)"
    and "List.find (\<lambda>b. b_currency b = cur) bs = Some e"
  shows "js_ge (js_sub (b_amount e) (to_number conv amt)) (Num 0)"
  using assms(1) find_in_set [OF find_debit [OF assms(2), of conv amt]]
  by (auto simp: validate_wallet_def list_all_iff)

text \<open>A difference that is a number not below zero, of a minuend not below the
  subtrahend, has a minuend at least the subtrahend.\<close>

lemma js_ge_of_sub:
  "js_ge (js_sub x y) (Num 0) \<Longrightarrow> \<not> js_lt x y \<Longrightarrow> js_ge x y"
  by (cases x; cases y) (simp_all add: js_ge_def js_sub_def)

section \<open>Properties of the wallet routes\<close>

lemma balances_pre_save: "balances (wallet_pre_save False now w) = balances w"
  by (simp add: wallet_pre_save_def)

lemma isDeleted_pre_save: "w_isDeleted (wallet_pre_save isNew now w) = w_isDeleted w"
  by (simp add: wallet_pre_save_def Let_def)

text \<open>What a successful transfer between two different users has done.\<close>

lemma transfer_handler_Success:
  assumes "transfer_handler conv f now user toId b db = (Success m s nb, db')"
    and "castObjectId toId = Some receiver"
  shows "\<exists>ws wr e. wallets db user = Some ws \<and> wallets db receiver = Some wr
           \<and> List.find (\<lambda>x. b_currency x = currency_or_default b) (balances ws) = Some e
           \<and> \<not> js_lt (b_amount e) (to_number conv (req_amount b))
           \<and> validate_wallet (ws\<lparr>balances :=
                 debit conv (balances ws) (currency_or_default b) (req_amount b)\<rparr>)
           \<and> wallets db' = (wallets db)
                (user \<mapsto> wallet_pre_save False now
                   (ws\<lparr>balances := debit conv (balances ws) (currency_or_default b) (req_amount b)\<rparr>),
                 receiver \<mapsto> wallet_pre_save False now
                   (wr\<lparr>balances := credit conv (balances wr) (currency_or_default b) (req_amount b)\<rparr>))"
  using assms unfolding transfer_handler_def Let_def
  by (auto split: if_splits option.splits)

text \<open>
  C3: for every validated withdrawal request of a user with a wallet, if the wallet has
  no entry for the requested currency or the amount exceeds the balance in it, the
  response is 400 "Insufficient funds" and the database, wallets and transaction log
  alike, is the one before the request; the handler answers so whatever the body.
\<close>

theorem withdraw_insufficient_funds:
  assumes "validateTransaction conv b" and "wallets db user = Some w"
    and "List.find (\<lambda>x. b_currency x = currency_or_default b) (balances w) = None
         \<or> js_lt (getBalance (balances w) (currency_or_default b)) (to_number conv (req_amount b))"
  shows "post_withdraw conv f now user b db = (Error 400 (Text ''Insufficient funds''), db)
         \<and> withdraw_handler conv f now user b db = (Error 400 (Text ''Insufficient funds''), db)"
  using assms
  by (auto simp: post_withdraw_def withdraw_handler_def Let_def getBalance_def
      split: option.splits)

text \<open>User 1 holds 50,000 USD and asks for 80,000; user 3 has no USD entry and asks
  for 1.\<close>

theorem withdraw_insufficient_funds_witness:
  "validateTransaction digit_strings (pay 80000)
   \<and> wallets db0 1 = Some (mk_wallet [usd 50000] False)
   \<and> js_lt (getBalance (balances (mk_wallet [usd 50000] False)) (currency_or_default (pay 80000)))
        (to_number digit_strings (req_amount (pay 80000)))
   \<and> post_withdraw digit_strings no_faults 5000 1 (pay 80000) db0
       = (Error 400 (Text ''Insufficient funds''), db0)
   \<and> validateTransaction digit_strings (pay 1) \<and> wallets db0 3 = Some (mk_wallet [] False)
   \<and> List.find (\<lambda>x. b_currency x = currency_or_default (pay 1)) (balances (mk_wallet [] False))
       = None
   \<and> post_withdraw digit_strings no_faults 5000 3 (pay 1) db0
       = (Error 400 (Text ''Insufficient funds''), db0)"
proof -
  have a: "validateTransaction digit_strings (pay 80000)"
    and a': "validateTransaction digit_strings (pay 1)"
    by (simp_all add: validateTransaction_def joi_number_ok_def MAX_SAFE_INTEGER_def pay_def
        num_eval)
  have b: "wallets db0 1 = Some (mk_wallet [usd 50000] False)"
    and b': "wallets db0 3 = Some (mk_wallet [] False)"
    by (simp_all add: db0_def)
  have c: "js_lt (getBalance (balances (mk_wallet [usd 50000] False))
                   (currency_or_default (pay 80000)))
             (to_number digit_strings (req_amount (pay 80000)))"
    by (simp add: getBalance_def mk_wallet_def usd_def pay_def currency_or_default_def
        to_number_def)
  have c': "List.find (\<lambda>x. b_currency x = currency_or_default (pay 1))
              (balances (mk_wallet [] False)) = None"
    by (simp add: mk_wallet_def)
  from withdraw_insufficient_funds [OF a b disjI2 [OF c], of no_faults 5000]
    withdraw_insufficient_funds [OF a' b' disjI1 [OF c'], of no_faults 5000]
    a a' b b' c c'
  show ?thesis by blast
qed

text \<open>
  C6, as the code has it: for every committed transfer whose amount is sent as a JSON
  number, to a destination id that denotes a user other than the source, both users have
  wallets, the source held at least the amount in the currency, the source's balance in
  the currency is now the double nearest to its balance less the amount, and the
  destination's is the amount where it had no entry and otherwise the double nearest to its
  balance plus the amount. Whenever the exact difference and the exact sum are doubles,
  the source's balance has decreased by exactly the amount, the destination's (an absent
  entry counting as zero) has increased by exactly the amount, and the sum of the two
  balances is unchanged.
\<close>

theorem transfer_conserves_funds:
  assumes "post_transfer conv f now user toId b db = (Success m s nb, db')"
    and "req_amount b = JNumber n"
    and "castObjectId toId = Some receiver" and "receiver \<noteq> user"
  shows "wallets db user \<noteq> None \<and> wallets db receiver \<noteq> None
     \<and> js_ge (balance_in db user (currency_or_default b)) n
     \<and> balance_in db' user (currency_or_default b)
         = js_sub (balance_in db user (currency_or_default b)) n
     \<and> balance_in db' receiver (currency_or_default b)
         = (if held db receiver (currency_or_default b) = None then n
            else js_add (balance_in db receiver (currency_or_default b)) n)
     \<and> (n = Num a \<and> balance_in db user (currency_or_default b) = Num x
         \<and> balance_in db receiver (currency_or_default b) = Num y
         \<and> round_number (x - a) = Num (x - a) \<and> round_number (y + a) = Num (y + a)
        \<longrightarrow> balance_in db' user (currency_or_default b) = Num (x - a)
            \<and> balance_in db' receiver (currency_or_default b) = Num (y + a)
            \<and> (x - a) + (y + a) = x + y)"
proof -
  let ?cur = "currency_or_default b"
  from assms(1) have h: "transfer_handler conv f now user toId b db = (Success m s nb, db')"
    by (simp add: post_transfer_def split: if_splits)
  from transfer_handler_Success [OF h assms(3)] obtain ws wr e where
    *: "wallets db user = Some ws" "wallets db receiver = Some wr"
       "List.find (\<lambda>x. b_currency x = ?cur) (balances ws) = Some e"
       "\<not> js_lt (b_amount e) (to_number conv (req_amount b))"
       "validate_wallet (ws\<lparr>balances := debit conv (balances ws) ?cur (req_amount b)\<rparr>)"
       "wallets db' = (wallets db)
                (user \<mapsto> wallet_pre_save False now
                   (ws\<lparr>balances := debit conv (balances ws) ?cur (req_amount b)\<rparr>),
                 receiver \<mapsto> wallet_pre_save False now
                   (wr\<lparr>balances := credit conv (balances wr) ?cur (req_amount b)\<rparr>))"
    by blast
  have tn: "to_number conv (req_amount b) = n"
    by (simp add: assms(2) to_number_def)
  have src0: "balance_in db user ?cur = b_amount e"
    using * by (simp add: balance_in_def getBalance_def)
  have ge: "js_ge (balance_in db user ?cur) n"
    using js_ge_of_sub [OF validated_debit [OF *(5) *(3)] *(4)] by (simp add: src0 tn)
  have src: "balance_in db' user ?cur = js_sub (balance_in db user ?cur) n"
    using * assms(4) getBalance_debit [OF *(3), of conv "req_amount b"]
    by (simp add: balance_in_def balances_pre_save getBalance_def tn)
  have dst: "balance_in db' receiver ?cur
         = (if held db receiver ?cur = None then n
            else js_add (balance_in db receiver ?cur) n)"
  proof (cases "List.find (\<lambda>x. b_currency x = ?cur) (balances wr)")
    case None
    with * getBalance_credit_absent(2) [OF None, of conv "req_amount b"] show ?thesis
      by (simp add: balance_in_def held_def balances_pre_save tn)
  next
    case (Some e')
    with * getBalance_credit_present [OF Some, of conv "req_amount b"] show ?thesis
      by (simp add: balance_in_def held_def balances_pre_save getBalance_def plus_assign_def
          assms(2))
  qed
  have exact: "balance_in db' user ?cur = Num (x - a)
            \<and> balance_in db' receiver ?cur = Num (y + a) \<and> (x - a) + (y + a) = x + y"
    if e: "n = Num a" "balance_in db user ?cur = Num x" "balance_in db receiver ?cur = Num y"
      "round_number (x - a) = Num (x - a)" "round_number (y + a) = Num (y + a)"
  proof -
    have "balance_in db' user ?cur = Num (x - a)"
      using src e by (simp add: js_sub_def)
    moreover have "balance_in db' receiver ?cur = Num (y + a)"
    proof (cases "held db receiver ?cur = None")
      case True
      then have "y = 0"
        using e(3) * by (auto simp: held_def balance_in_def getBalance_def split: option.splits)
      with dst True e show ?thesis by simp
    next
      case False
      with dst e show ?thesis by simp
    qed
    ultimately show ?thesis by simp
  qed
  from * ge src dst exact show ?thesis by blast
qed

text \<open>User 1 (50,000 USD) sends 10,000 USD to user 3, whose wallet has no USD entry.\<close>

theorem transfer_conserves_funds_witness:
  "post_transfer digit_strings no_faults 5000 1 (toString 3) (pay 10000) db0
     = (Success ''Transfer successful''
          \<lparr>s_amount = JNumber (Num 10000), s_currency = ''USD'', s_toUserId = Some (toString 3),
           s_status = completed, s_isFlagged = True\<rparr> (Num 40000),
        snd (post_transfer digit_strings no_faults 5000 1 (toString 3) (pay 10000) db0))
   \<and> castObjectId (toString 3) = Some 3
   \<and> balance_in (snd (post_transfer digit_strings no_faults 5000 1 (toString 3) (pay 10000) db0))
        1 ''USD'' = Num 40000
   \<and> balance_in (snd (post_transfer digit_strings no_faults 5000 1 (toString 3) (pay 10000) db0))
        3 ''USD'' = Num 10000"
proof -
  have i: "castObjectId (toString 3) = Some 3" "toString (Suc 0) \<noteq> toString 3" "toString 3 \<noteq> []"
    by code_simp+
  have a: "post_transfer digit_strings no_faults 5000 1 (toString 3) (pay 10000) db0
     = (Success ''Transfer successful''
          \<lparr>s_amount = JNumber (Num 10000), s_currency = ''USD'', s_toUserId = Some (toString 3),
           s_status = completed, s_isFlagged = True\<rparr> (Num 40000),
        snd (post_transfer digit_strings no_faults 5000 1 (toString 3) (pay 10000) db0))"
    by (simp add: prod_eq_iff route_defs fraud_defs data_defs i num_eval)
  have c: "currency_or_default (pay 10000) = ''USD''" "req_amount (pay 10000) = JNumber (Num 10000)"
    by (simp_all add: currency_or_default_def pay_def)
  have d: "balance_in db0 1 (currency_or_default (pay 10000)) = Num 50000"
    "balance_in db0 3 (currency_or_default (pay 10000)) = Num 0"
    by (simp_all add: balance_in_def getBalance_def data_defs currency_or_default_def)
  have r: "round_number (50000 - 10000) = Num (50000 - 10000)"
    "round_number (0 + 10000) = Num (0 + 10000)"
    by (simp_all add: num_eval)
  have n: "(3::nat) \<noteq> 1" by simp
  from transfer_conserves_funds [OF a c(2) i(1) n, of 10000 50000 0] d r
  have "balance_in (snd (post_transfer digit_strings no_faults 5000 1 (toString 3) (pay 10000)
          db0)) 1 (currency_or_default (pay 10000)) = Num (50000 - 10000)"
    and "balance_in (snd (post_transfer digit_strings no_faults 5000 1 (toString 3) (pay 10000)
          db0)) 3 (currency_or_default (pay 10000)) = Num (0 + 10000)"
    by blast+
  then have k: "balance_in (snd (post_transfer digit_strings no_faults 5000 1 (toString 3)
          (pay 10000) db0)) 1 ''USD'' = Num 40000"
    "balance_in (snd (post_transfer digit_strings no_faults 5000 1 (toString 3)
          (pay 10000) db0)) 3 ''USD'' = Num 10000"
    by (simp_all add: c(1))
  from a i(1) k show ?thesis by blast
qed

text \<open>
  The claim as stated fails: user 1 holds \<open>4.5 * 10^16\<close> USD and sends 10,001 USD to user 3.
  The transfer is committed; the source's balance decreases by 10,000, the destination's
  increases by 10,001, and the sum of the two balances grows by 1.
\<close>

theorem transfer_rounds_balances:
  "post_transfer digit_strings no_faults 5000 1 (toString 3) (pay 10001) db_big
     = (Success ''Transfer successful''
          \<lparr>s_amount = JNumber (Num 10001), s_currency = ''USD'', s_toUserId = Some (toString 3),
           s_status = completed, s_isFlagged = True\<rparr> (Num 44999999999990000),
        snd (post_transfer digit_strings no_faults 5000 1 (toString 3) (pay 10001) db_big))
   \<and> castObjectId (toString 3) = Some 3
   \<and> balance_in db_big 1 ''USD'' = Num 45000000000000000
   \<and> balance_in db_big 3 ''USD'' = Num 0
   \<and> balance_in (snd (post_transfer digit_strings no_faults 5000 1 (toString 3) (pay 10001)
        db_big)) 1 ''USD'' = Num 44999999999990000
   \<and> balance_in (snd (post_transfer digit_strings no_faults 5000 1 (toString 3) (pay 10001)
        db_big)) 3 ''USD'' = Num 10001
   \<and> (44999999999990000 :: rat) = 45000000000000000 - 10000
   \<and> (44999999999990000 + 10001 :: rat) = 45000000000000000 + 0 + 1"
proof -
  have i: "castObjectId (toString 3) = Some 3" "toString (Suc 0) \<noteq> toString 3" "toString 3 \<noteq> []"
    by code_simp+
  show ?thesis
    by (simp add: prod_eq_iff route_defs fraud_defs data_defs balance_in_def i num_eval)
qed

text \<open>
  C7 on the code: user 10, whose id prints as \<open>00000000000000000000000a\<close>, names the same
  id with a capital A as the destination. The guard compares the two strings, which
  differ; the cast of the destination gives user 10 again; the transfer of 10,000 USD is
  answered as successful, a record from user 10 to user 10 is logged, and the wallet, saved
  twice, ends with the credited balance of 60,000.
\<close>

theorem self_transfer_passes_guard:
  "toString 10 = ''00000000000000000000000a''
   \<and> castObjectId ''00000000000000000000000A'' = Some 10
   \<and> fst (post_transfer digit_strings no_faults 5000 10 ''00000000000000000000000A'' (pay 10000)
        db_self)
       = Success ''Transfer successful''
           \<lparr>s_amount = JNumber (Num 10000), s_currency = ''USD'',
            s_toUserId = Some ''00000000000000000000000A'', s_status = completed,
            s_isFlagged = True\<rparr> (Num 40000)
   \<and> map fromUserId (transactions (snd (post_transfer digit_strings no_faults 5000 10
        ''00000000000000000000000A'' (pay 10000) db_self))) = [Some 10]
   \<and> map toUserId (transactions (snd (post_transfer digit_strings no_faults 5000 10
        ''00000000000000000000000A'' (pay 10000) db_self))) = [Some 10]
   \<and> balance_in (snd (post_transfer digit_strings no_faults 5000 10
        ''00000000000000000000000A'' (pay 10000) db_self)) 10 ''USD'' = Num 60000"
proof -
  have i: "toString 10 = ''00000000000000000000000a''"
    "castObjectId ''00000000000000000000000A'' = Some 10"
    by code_simp+
  show ?thesis
    by (simp add: route_defs fraud_defs data_defs db_self_def balance_in_def i num_eval)
qed

text \<open>
  C10: the recipient lookup of a transfer does not look at the soft-delete flag. A
  transfer to an id whose wallet exists and is soft-deleted is never answered "Recipient
  wallet not found"; and for some input it completes and credits the soft-deleted wallet:
  user 1 sends 10,000 USD to user 2, whose soft-deleted wallet holds 5 USD and then
  10,005 USD.
\<close>

theorem transfer_credits_soft_deleted_wallet:
  "(castObjectId toId = Some receiver \<and> wallets db receiver = Some wr \<and> w_isDeleted wr
      \<longrightarrow> fst (post_transfer conv f now user toId b db)
            \<noteq> Error 404 (Text ''Recipient wallet not found''))
   \<and> wallets db0 2 = Some (mk_wallet [usd 5] True) \<and> w_isDeleted (mk_wallet [usd 5] True)
   \<and> castObjectId (toString 2) = Some 2
   \<and> fst (post_transfer digit_strings no_faults 5000 1 (toString 2) (pay 10000) db0)
       = Success ''Transfer successful''
           \<lparr>s_amount = JNumber (Num 10000), s_currency = ''USD'', s_toUserId = Some (toString 2),
            s_status = completed, s_isFlagged = True\<rparr> (Num 40000)
   \<and> wallets (snd (post_transfer digit_strings no_faults 5000 1 (toString 2) (pay 10000) db0)) 2
       = Some (mk_wallet [usd 10005] True\<lparr>w_updatedAt := 5000\<rparr>)"
proof -
  have g: "fst (post_transfer conv f now user toId b db)
            \<noteq> Error 404 (Text ''Recipient wallet not found'')"
    if "castObjectId toId = Some receiver" "wallets db receiver = Some wr"
    using that unfolding post_transfer_def transfer_handler_def Let_def
    by (auto split: option.splits)
  have i: "castObjectId (toString 2) = Some 2" "toString (Suc 0) \<noteq> toString 2" "toString 2 \<noteq> []"
    by code_simp+
  have e: "wallets db0 2 = Some (mk_wallet [usd 5] True) \<and> w_isDeleted (mk_wallet [usd 5] True)
   \<and> fst (post_transfer digit_strings no_faults 5000 1 (toString 2) (pay 10000) db0)
       = Success ''Transfer successful''
           \<lparr>s_amount = JNumber (Num 10000), s_currency = ''USD'', s_toUserId = Some (toString 2),
            s_status = completed, s_isFlagged = True\<rparr> (Num 40000)
   \<and> wallets (snd (post_transfer digit_strings no_faults 5000 1 (toString 2) (pay 10000) db0)) 2
       = Some (mk_wallet [usd 10005] True\<lparr>w_updatedAt := 5000\<rparr>)"
    by (simp add: route_defs fraud_defs data_defs i num_eval)
  from g e i(1) show ?thesis by blast
qed

text \<open>The same transfer is not answered 404.\<close>

theorem transfer_credits_soft_deleted_wallet_witness:
  "castObjectId (toString 2) = Some 2 \<and> wallets db0 2 = Some (mk_wallet [usd 5] True)
   \<and> w_isDeleted (mk_wallet [usd 5] True)
   \<and> fst (post_transfer digit_strings no_faults 5000 1 (toString 2) (pay 10000) db0)
       \<noteq> Error 404 (Text ''Recipient wallet not found'')"
  using transfer_credits_soft_deleted_wallet
    [of "toString 2" 2 db0 "mk_wallet [usd 5] True" digit_strings no_faults 5000 1 "pay 10000"]
  by simp

section \<open>Non-negative balances\<close>

lemma non_negative_update:
  "non_negative db \<Longrightarrow> validate_wallet w \<Longrightarrow>
   non_negative (db\<lparr>wallets := (wallets db)(u \<mapsto> wallet_pre_save False now w),
                    transactions := ts\<rparr>)"
  by (auto simp: non_negative_def validate_wallet_def list_all_iff balances_pre_save)

lemma non_negative_update2:
  "non_negative db \<Longrightarrow> validate_wallet w \<Longrightarrow> validate_wallet w' \<Longrightarrow>
   non_negative (db\<lparr>wallets := (wallets db)(u \<mapsto> wallet_pre_save False now w,
                                           v \<mapsto> wallet_pre_save False now w'),
                    transactions := ts\<rparr>)"
  by (auto simp: non_negative_def validate_wallet_def list_all_iff balances_pre_save)

lemma deposit_non_negative:
  "non_negative db \<Longrightarrow> non_negative (snd (post_deposit conv f now user b db))"
  unfolding post_deposit_def deposit_handler_def Let_def
  by (auto split: option.splits intro: non_negative_update)

lemma withdraw_non_negative:
  "non_negative db \<Longrightarrow> non_negative (snd (post_withdraw conv f now user b db))"
  unfolding post_withdraw_def withdraw_handler_def Let_def
  by (auto split: option.splits intro: non_negative_update)

lemma transfer_non_negative:
  "non_negative db \<Longrightarrow> non_negative (snd (post_transfer conv f now user toId b db))"
  unfolding post_transfer_def transfer_handler_def Let_def
  by (auto split: option.splits intro: non_negative_update2)

lemma serve_non_negative: "non_negative db \<Longrightarrow> non_negative (snd (serve conv r db))"
proof (cases r)
  case (fields f now req)
  assume "non_negative db"
  then show ?thesis unfolding fields
    by (cases req) (simp_all add: deposit_non_negative withdraw_non_negative transfer_non_negative)
qed

lemma serve_all_non_negative: "non_negative db \<Longrightarrow> non_negative (serve_all conv rs db)"
  by (induction rs arbitrary: db) (simp_all add: serve_non_negative)

lemma withdraw_handler_Success:
  assumes "withdraw_handler conv f now user b db = (Success m s nb, db')"
  shows "\<exists>w e. wallets db user = Some w
           \<and> List.find (\<lambda>x. b_currency x = currency_or_default b) (balances w) = Some e
           \<and> \<not> js_lt (b_amount e) (to_number conv (req_amount b))
           \<and> validate_wallet (w\<lparr>balances :=
                 debit conv (balances w) (currency_or_default b) (req_amount b)\<rparr>)"
  using assms unfolding withdraw_handler_def Let_def
  by (auto split: if_splits option.splits)

lemma withdraw_guard:
  assumes "post_withdraw conv f now user b db = (Success m s nb, db')"
  shows "js_ge (balance_in db user (currency_or_default b)) (to_number conv (req_amount b))"
proof -
  from assms have "withdraw_handler conv f now user b db = (Success m s nb, db')"
    by (simp add: post_withdraw_def split: if_splits)
  from withdraw_handler_Success [OF this] obtain w e where
    *: "wallets db user = Some w"
       "List.find (\<lambda>x. b_currency x = currency_or_default b) (balances w) = Some e"
       "\<not> js_lt (b_amount e) (to_number conv (req_amount b))"
       "validate_wallet (w\<lparr>balances :=
                 debit conv (balances w) (currency_or_default b) (req_amount b)\<rparr>)"
    by blast
  from js_ge_of_sub [OF validated_debit [OF *(4) *(2)] *(3)] * show ?thesis
    by (simp add: balance_in_def getBalance_def)
qed

lemma transfer_guard:
  assumes "post_transfer conv f now user toId b db = (Success m s nb, db')"
  shows "js_ge (balance_in db user (currency_or_default b)) (to_number conv (req_amount b))"
proof -
  from assms have h: "transfer_handler conv f now user toId b db = (Success m s nb, db')"
    by (simp add: post_transfer_def split: if_splits)
  then obtain receiver where r: "castObjectId toId = Some receiver"
    unfolding transfer_handler_def Let_def by (auto split: if_splits option.splits)
  from transfer_handler_Success [OF h r] obtain ws wr e where
    *: "wallets db user = Some ws"
       "List.find (\<lambda>x. b_currency x = currency_or_default b) (balances ws) = Some e"
       "\<not> js_lt (b_amount e) (to_number conv (req_amount b))"
       "validate_wallet (ws\<lparr>balances :=
                 debit conv (balances ws) (currency_or_default b) (req_amount b)\<rparr>)"
    by blast
  from js_ge_of_sub [OF validated_debit [OF *(4) *(2)] *(3)] * show ?thesis
    by (simp add: balance_in_def getBalance_def)
qed

text \<open>
  C9: starting from a database in which every entry of every wallet is non-negative,
  every entry of every wallet is non-negative after each request of any sequence of
  deposit, withdrawal and transfer requests; and a withdrawal or a transfer succeeds only
  when the source's balance in the requested currency is at least the amount.
\<close>

theorem balances_stay_non_negative:
  "(non_negative db \<longrightarrow> (\<forall>n. non_negative (serve_all conv (take n rs) db)))
   \<and> (post_withdraw conv f now user b db0' = (Success m s nb, db1)
        \<longrightarrow> js_ge (balance_in db0' user (currency_or_default b)) (to_number conv (req_amount b)))
   \<and> (post_transfer conv f now user toId b db0' = (Success m s nb, db1)
        \<longrightarrow> js_ge (balance_in db0' user (currency_or_default b)) (to_number conv (req_amount b)))"
  by (auto simp: serve_all_non_negative dest: withdraw_guard transfer_guard)

text \<open>A deposit of 20,000, a rejected withdrawal of 80,000 and a transfer of 15,000,
  each flagged as a large amount, leave user 1 with 55,000 USD and user 2 with 15,005
  USD; a withdrawal of 10,000 from the 50,000 of user 1 succeeds.\<close>

theorem balances_stay_non_negative_witness:
  "non_negative db0 \<and> non_negative (serve_all digit_strings (take 3 requests0) db0)
   \<and> balance_in (serve_all digit_strings (take 3 requests0) db0) 1 ''USD'' = Num 55000
   \<and> balance_in (serve_all digit_strings (take 3 requests0) db0) 2 ''USD'' = Num 15005
   \<and> length (transactions (serve_all digit_strings (take 3 requests0) db0)) = 2
   \<and> post_withdraw digit_strings no_faults 5000 1 (pay 10000) db0
       = (Success ''Withdrawal successful''
            \<lparr>s_amount = JNumber (Num 10000), s_currency = ''USD'', s_toUserId = None,
             s_status = completed, s_isFlagged = True\<rparr> (Num 40000),
          snd (post_withdraw digit_strings no_faults 5000 1 (pay 10000) db0))
   \<and> js_ge (balance_in db0 1 (currency_or_default (pay 10000)))
        (to_number digit_strings (req_amount (pay 10000)))"
proof -
  have i: "castObjectId (toString 2) = Some 2" "toString (Suc 0) \<noteq> toString 2" "toString 2 \<noteq> []"
    by code_simp+
  have a: "non_negative db0"
    by (auto simp: non_negative_def data_defs js_ge_def split: if_splits)
  have b: "balance_in (serve_all digit_strings (take 3 requests0) db0) 1 ''USD'' = Num 55000"
    "balance_in (serve_all digit_strings (take 3 requests0) db0) 2 ''USD'' = Num 15005"
    "length (transactions (serve_all digit_strings (take 3 requests0) db0)) = 2"
    by (simp_all add: requests0_def route_defs fraud_defs data_defs balance_in_def i num_eval)
  have c: "post_withdraw digit_strings no_faults 5000 1 (pay 10000) db0
       = (Success ''Withdrawal successful''
            \<lparr>s_amount = JNumber (Num 10000), s_currency = ''USD'', s_toUserId = None,
             s_status = completed, s_isFlagged = True\<rparr> (Num 40000),
          snd (post_withdraw digit_strings no_faults 5000 1 (pay 10000) db0))"
    by (simp add: prod_eq_iff route_defs fraud_defs data_defs num_eval)
  from balances_stay_non_negative [where db = db0 and rs = requests0 and conv = digit_strings
      and f = no_faults and now = 5000 and user = 1 and b = "pay 10000" and ?db0'.0 = db0
      and m = "''Withdrawal successful''"
      and s = "\<lparr>s_amount = JNumber (Num 10000), s_currency = ''USD'', s_toUserId = None,
                 s_status = completed, s_isFlagged = True\<rparr>"
      and nb = "Num 40000"
      and ?db1.0 = "snd (post_withdraw digit_strings no_faults 5000 1 (pay 10000) db0)"]
    a c
  have e: "non_negative (serve_all digit_strings (take 3 requests0) db0)"
    "js_ge (balance_in db0 1 (currency_or_default (pay 10000)))
        (to_number digit_strings (req_amount (pay 10000)))"
    by blast+
  from a b c e show ?thesis by blast
qed

section \<open>Wallet creation and deposits\<close>

lemma deposit_handler_dom:
  "dom (wallets (snd (deposit_handler conv f now user b db))) = dom (wallets db)"
  unfolding deposit_handler_def Let_def by (auto split: option.splits)

text \<open>
  C8, as the code has it: a wallet saved for the first time without entries is seeded
  with a single zero-amount USD entry; credit, when the wallet has no entry of the
  requested currency, appends an entry of that currency holding the amount; and the
  deposit route never creates a wallet: the users with a wallet are the same after a
  deposit request as before it.
\<close>

theorem wallet_seeding_and_credit:
  "balances (wallet_pre_save True now (w\<lparr>balances := []\<rparr>))
     = [\<lparr>b_currency = ''USD'', b_amount = Num 0\<rparr>]
   \<and> (List.find (\<lambda>x. b_currency x = cur) bs = None
        \<longrightarrow> credit conv bs cur amt = bs @ [\<lparr>b_currency = cur, b_amount = to_number conv amt\<rparr>])
   \<and> dom (wallets (snd (post_deposit conv f now user b db))) = dom (wallets db)"
proof -
  have a: "balances (wallet_pre_save True now (w\<lparr>balances := []\<rparr>))
             = [\<lparr>b_currency = ''USD'', b_amount = Num 0\<rparr>]"
    by (simp add: wallet_pre_save_def)
  have d: "dom (wallets (snd (post_deposit conv f now user b db))) = dom (wallets db)"
    by (simp add: post_deposit_def deposit_handler_dom)
  from a d getBalance_credit_absent(1) show ?thesis by blast
qed

text \<open>Crediting 50 USD to the wallet of user 3, which has no entries, gives it the single
  entry of 50 USD.\<close>

theorem wallet_seeding_and_credit_witness:
  "List.find (\<lambda>x. b_currency x = ''USD'') (balances (mk_wallet [] False)) = None
   \<and> credit digit_strings (balances (mk_wallet [] False)) ''USD'' (JNumber (Num 50)) = [usd 50]"
proof -
  have n: "List.find (\<lambda>x. b_currency x = ''USD'') (balances (mk_wallet [] False)) = None"
    by (simp add: mk_wallet_def)
  from wallet_seeding_and_credit [where cur = "''USD''" and bs = "balances (mk_wallet [] False)"
      and conv = digit_strings and amt = "JNumber (Num 50)"] n
  have "credit digit_strings (balances (mk_wallet [] False)) ''USD'' (JNumber (Num 50))
          = balances (mk_wallet [] False)
            @ [\<lparr>b_currency = ''USD'', b_amount = to_number digit_strings (JNumber (Num 50))\<rparr>]"
    by blast
  with n show ?thesis by (simp add: mk_wallet_def usd_def to_number_def)
qed

text \<open>
  The claim as stated fails: user 4 has no wallet, and a valid deposit of 50 is answered
  500 with the message of the TypeError; no wallet is created.
\<close>

theorem deposit_without_wallet_fails:
  "validateTransaction digit_strings (pay 50) \<and> wallets db0 4 = None
   \<and> post_deposit digit_strings no_faults 5000 4 (pay 50) db0
       = (Error 500 (Exception_message TypeError), db0)
   \<and> wallets (snd (post_deposit digit_strings no_faults 5000 4 (pay 50) db0)) 4 = None"
  by (simp add: route_defs fraud_defs data_defs num_eval)

section \<open>Failure of the fraud evaluation\<close>

lemma fail_open_general:
  "checkFraudRules_try T now uid kind amt = Inl e
   \<Longrightarrow> checkFraudRules T now uid kind amt = not_flagged"
  by (simp add: checkFraudRules_def)

text \<open>A record built from the unflagged result does not pass the schema.\<close>

lemma unflagged_record_invalid:
  "\<not> validate_transaction
        ((new_Transaction now src dst kind amt cur d not_flagged)\<lparr>status := completed\<rparr>)"
  by (simp add: validate_transaction_def new_Transaction_def not_flagged_def)

lemma deposit_not_Success:
  assumes "checkFraudRules_try (Transaction_collection f (transactions db)) now user deposit
             (to_number conv (req_amount b)) = Inl e"
  shows "fst (post_deposit conv f now user b db) \<noteq> Success m s nb"
    and "snd (post_deposit conv f now user b db) = db"
  using fail_open_general [OF assms] unflagged_record_invalid
  unfolding post_deposit_def deposit_handler_def Let_def
  by (auto split: option.splits)

lemma withdraw_not_Success:
  assumes "checkFraudRules_try (Transaction_collection f (transactions db)) now user withdrawal
             (to_number conv (req_amount b)) = Inl e"
  shows "fst (post_withdraw conv f now user b db) \<noteq> Success m s nb"
    and "snd (post_withdraw conv f now user b db) = db"
  using fail_open_general [OF assms] unflagged_record_invalid
  unfolding post_withdraw_def withdraw_handler_def Let_def
  by (auto split: option.splits)

lemma transfer_not_Success:
  assumes "checkFraudRules_try (Transaction_collection f (transactions db)) now user transfer
             (to_number conv (req_amount b)) = Inl e"
  shows "fst (post_transfer conv f now user toId b db) \<noteq> Success m s nb"
    and "snd (post_transfer conv f now user toId b db) = db"
  using fail_open_general [OF assms] unflagged_record_invalid
  unfolding post_transfer_def transfer_handler_def Let_def
  by (auto split: option.splits)

text \<open>
  C5 on the code: whenever a query of the fraud evaluation throws, checkFraudRules
  returns isFlagged = false with no reason, as the claim says; but the operation does not
  proceed. The record built from that result carries a null flagReason, which the schema's
  enum refuses on save, so no deposit, withdrawal or transfer whose evaluation failed is
  answered with success, and the database is left as it was.
\<close>

theorem failed_evaluation_fails_operation:
  "(checkFraudRules_try T now uid kind amt = Inl e
      \<longrightarrow> checkFraudRules T now uid kind amt = not_flagged)
   \<and> (checkFraudRules_try (Transaction_collection f (transactions db)) now user deposit
        (to_number conv (req_amount b)) = Inl e
      \<longrightarrow> fst (post_deposit conv f now user b db) \<noteq> Success m s nb
          \<and> snd (post_deposit conv f now user b db) = db)
   \<and> (checkFraudRules_try (Transaction_collection f (transactions db)) now user withdrawal
        (to_number conv (req_amount b)) = Inl e
      \<longrightarrow> fst (post_withdraw conv f now user b db) \<noteq> Success m s nb
          \<and> snd (post_withdraw conv f now user b db) = db)
   \<and> (checkFraudRules_try (Transaction_collection f (transactions db)) now user transfer
        (to_number conv (req_amount b)) = Inl e
      \<longrightarrow> fst (post_transfer conv f now user toId b db) \<noteq> Success m s nb
          \<and> snd (post_transfer conv f now user toId b db) = db)"
  using fail_open_general [of T now uid kind amt e]
    deposit_not_Success(1) [of f db now user conv b e m s nb]
    deposit_not_Success(2) [of f db now user conv b e]
    withdraw_not_Success(1) [of f db now user conv b e m s nb]
    withdraw_not_Success(2) [of f db now user conv b e]
    transfer_not_Success(1) [of f db now user conv b e toId m s nb]
    transfer_not_Success(2) [of f db now user conv b e toId]
  by blast

text \<open>
  User 1 deposits 10,000 USD. With a reachable history the deposit is flagged as a large
  amount and succeeds; with an unreachable history the same deposit is answered 500 and
  nothing is stored.
\<close>

theorem failed_evaluation_fails_operation_witness:
  "checkFraudRules_try (Transaction_collection unreachable (transactions db0)) 5000 1 deposit
     (to_number digit_strings (req_amount (pay 10000))) = Inl MongoError
   \<and> checkFraudRules (Transaction_collection unreachable (transactions db0)) 5000 1 deposit
       (to_number digit_strings (req_amount (pay 10000))) = not_flagged
   \<and> post_deposit digit_strings unreachable 5000 1 (pay 10000) db0
       = (Error 500 (Exception_message ValidationError), db0)
   \<and> fst (post_deposit digit_strings no_faults 5000 1 (pay 10000) db0)
       = Success ''Deposit successful''
           \<lparr>s_amount = JNumber (Num 10000), s_currency = ''USD'', s_toUserId = None,
            s_status = completed, s_isFlagged = True\<rparr> (Num 60000)
   \<and> fst (post_deposit digit_strings unreachable 5000 1 (pay 10000) db0)
       \<noteq> Success ''Deposit successful''
           \<lparr>s_amount = JNumber (Num 10000), s_currency = ''USD'', s_toUserId = None,
            s_status = completed, s_isFlagged = False\<rparr> (Num 60000)"
proof -
  have a: "checkFraudRules_try (Transaction_collection unreachable (transactions db0)) 5000 1
             deposit (to_number digit_strings (req_amount (pay 10000))) = Inl MongoError"
    by (simp add: checkFraudRules_try_def Transaction_collection_def unreachable_def)
  have b: "post_deposit digit_strings unreachable 5000 1 (pay 10000) db0
       = (Error 500 (Exception_message ValidationError), db0)"
    by (simp add: route_defs fraud_defs data_defs num_eval)
  have c: "fst (post_deposit digit_strings no_faults 5000 1 (pay 10000) db0)
       = Success ''Deposit successful''
           \<lparr>s_amount = JNumber (Num 10000), s_currency = ''USD'', s_toUserId = None,
            s_status = completed, s_isFlagged = True\<rparr> (Num 60000)"
    by (simp add: route_defs fraud_defs data_defs num_eval)
  from failed_evaluation_fails_operation [where T = "Transaction_collection unreachable
        (transactions db0)" and now = 5000 and uid = 1 and kind = deposit
      and amt = "to_number digit_strings (req_amount (pay 10000))" and e = MongoError
      and f = unreachable and db = db0 and user = 1 and conv = digit_strings
      and b = "pay 10000" and m = "''Deposit successful''"
      and s = "\<lparr>s_amount = JNumber (Num 10000), s_currency = ''USD'', s_toUserId = None,
                 s_status = completed, s_isFlagged = False\<rparr>"
      and nb = "Num 60000"] a
  have "checkFraudRules (Transaction_collection unreachable (transactions db0)) 5000 1 deposit
       (to_number digit_strings (req_amount (pay 10000))) = not_flagged"
    and "fst (post_deposit digit_strings unreachable 5000 1 (pay 10000) db0)
       \<noteq> Success ''Deposit successful''
           \<lparr>s_amount = JNumber (Num 10000), s_currency = ''USD'', s_toUserId = None,
            s_status = completed, s_isFlagged = False\<rparr> (Num 60000)"
    by blast+
  with a b c show ?thesis by blast
qed

text \<open>
  An amount sent as a string of digits passes the validation and reaches the handlers as
  a string: the deposit of "10000" by user 1, who holds 50,000 USD, is flagged as a large
  amount and leaves the balance at the number of the concatenation "5000010000".
\<close>

lemma digits_of_numeral:
  "digits_of (numeral k) =
     (if (numeral k :: nat) < 10 then [''0123456789'' ! numeral k]
      else digits_of (numeral k div 10) @ [''0123456789'' ! (numeral k mod 10)])"
  by (subst digits_of.simps) simp

lemma string_amount_is_concatenated:
  "fst (post_deposit digit_strings no_faults 5000 1 (pay_string ''10000'') db0)
     = Success ''Deposit successful''
         \<lparr>s_amount = JString ''10000'', s_currency = ''USD'', s_toUserId = None,
          s_status = completed, s_isFlagged = True\<rparr> (Num 5000010000)"
proof -
  have d: "digits_of 50000 = ''50000''"
    by (simp add: digits_of_numeral)
  have c: "Joi_coerce digit_strings ''10000'' = Some (Num 10000)"
    "ToNumber digit_strings ''10000'' = Num 10000"
    "concat_ToNumber digit_strings (Num 50000) ''10000'' = Num 5000010000"
    by (simp_all add: digit_strings_def digit_string_def nat_of_digits_def d num_eval)
  show ?thesis
    by (simp add: route_defs fraud_defs data_defs c num_eval)
qed

section \<open>Properties of fraudDetectionJob\<close>

lemma map_of_bump:
  "map_of (bump m u) = (map_of m)(u \<mapsto> (case map_of m u of None \<Rightarrow> 1 | Some c \<Rightarrow> c + 1))"
  by (induction m u rule: bump.induct) (auto simp: fun_eq_iff)

lemma keys_bump:
  "map fst (bump m u) = (if u \<in> fst ` set m then map fst m else map fst m @ [u])"
  by (induction m u rule: bump.induct) (auto simp: image_iff)

lemma distinct_bump: "distinct (map fst m) \<Longrightarrow> distinct (map fst (bump m u))"
  by (simp add: keys_bump)

lemma distinct_count_step:
  "distinct (map fst m) \<Longrightarrow> distinct (map fst (count_step User m tx))"
  by (simp add: count_step_def distinct_bump split: option.splits)

lemma distinct_tally:
  "distinct (map fst m) \<Longrightarrow> distinct (map fst (foldl (count_step User) m txs))"
  by (induction txs arbitrary: m) (simp_all add: distinct_count_step)

lemma map_of_tally:
  "map_of (foldl (count_step User) m txs) u =
     (let k = length (filter (\<lambda>tx. counted_user User tx = Some u) txs)
      in if k = 0 then map_of m u else Some (tally_of m u + k))"
proof (induction txs arbitrary: m)
  case Nil
  show ?case by simp
next
  case (Cons tx txs)
  show ?case
  proof (cases "counted_user User tx")
    case None
    then show ?thesis using Cons [of m] by (simp add: count_step_def)
  next
    case (Some v)
    then show ?thesis using Cons [of "bump m v"]
      by (auto simp: count_step_def map_of_bump tally_of_def Let_def split: option.splits)
  qed
qed

lemma filter_filter_count:
  "length (filter (\<lambda>tx. counted_user User tx = Some u) (filter (yesterday_filter y t) txs))
   = daily_count User y t txs u"
  by (simp add: daily_count_def conj_commute)

lemma tally_entries:
  "(u, c) \<in> set (foldl (count_step User) [] (filter (yesterday_filter y t) txs))
   \<longleftrightarrow> c = daily_count User y t txs u \<and> 0 < c"
proof -
  let ?m = "foldl (count_step User) [] (filter (yesterday_filter y t) txs)"
  have d: "distinct (map fst ?m)" by (rule distinct_tally) simp
  have "(u, c) \<in> set ?m \<longleftrightarrow> map_of ?m u = Some c" using d by simp
  also have "map_of ?m u = (if daily_count User y t txs u = 0 then None
                             else Some (daily_count User y t txs u))"
    using map_of_tally [of User "[]" "filter (yesterday_filter y t) txs" u]
    unfolding filter_filter_count by (simp add: tally_of_def Let_def)
  finally show ?thesis by auto
qed

text \<open>
  C2, as the code has it: over the non-deleted records of the prior day's window, read
  from a reachable store, the job counts each record once, for its source user when the
  record has one whose user document exists and otherwise for its destination user, and
  reports exactly the users whose count exceeds 20, each once, with that count and the
  reason excessive_daily_transactions; so a user counted for 21 records is reported and
  a user counted for 19 is not.
\<close>

theorem daily_scan_reports_counted_users:
  "\<exists>report. fraudDetectionJob (Transaction_collection no_faults txs) User yesterday today
               = Inr report
     \<and> scannedTransactions report = length (filter (yesterday_filter yesterday today) txs)
     \<and> suspiciousUsers report = length (details report)
     \<and> distinct (map su_userId (details report))
     \<and> (\<forall>d. d \<in> set (details report) \<longleftrightarrow>
          20 < daily_count User yesterday today txs (su_userId d)
          \<and> d = \<lparr>su_userId = su_userId d,
                  transactionCount = daily_count User yesterday today txs (su_userId d),
                  reason = ''excessive_daily_transactions''\<rparr>)"
proof -
  let ?m = "foldl (count_step User) [] (filter (yesterday_filter yesterday today) txs)"
  let ?mk = "\<lambda>(u, c). \<lparr>su_userId = u, transactionCount = c,
                        reason = ''excessive_daily_transactions''\<rparr>"
  let ?ds = "map ?mk (filter (\<lambda>(u, c). c > 20) ?m)"
  have d: "distinct (map fst ?m)" by (rule distinct_tally) simp
  have keys: "map su_userId ?ds = map fst (filter (\<lambda>(u, c). c > 20) ?m)"
    by (simp add: comp_def case_prod_beta)
  have dist: "distinct (map su_userId ?ds)"
    unfolding keys using d by (simp add: distinct_map_filter)
  have mem: "d \<in> set ?ds \<longleftrightarrow>
          20 < daily_count User yesterday today txs (su_userId d)
          \<and> d = \<lparr>su_userId = su_userId d,
                  transactionCount = daily_count User yesterday today txs (su_userId d),
                  reason = ''excessive_daily_transactions''\<rparr>" for d
  proof
    assume "d \<in> set ?ds"
    then obtain u c where uc: "(u, c) \<in> set ?m" "20 < c" "d = ?mk (u, c)" by auto
    then show "20 < daily_count User yesterday today txs (su_userId d)
          \<and> d = \<lparr>su_userId = su_userId d,
                  transactionCount = daily_count User yesterday today txs (su_userId d),
                  reason = ''excessive_daily_transactions''\<rparr>"
      by (simp add: tally_entries)
  next
    assume h: "20 < daily_count User yesterday today txs (su_userId d)
          \<and> d = \<lparr>su_userId = su_userId d,
                  transactionCount = daily_count User yesterday today txs (su_userId d),
                  reason = ''excessive_daily_transactions''\<rparr>"
    then have "(su_userId d, daily_count User yesterday today txs (su_userId d))
                 \<in> set (filter (\<lambda>(u, c). c > 20) ?m)"
      by (simp add: tally_entries)
    then have "?mk (su_userId d, daily_count User yesterday today txs (su_userId d))
                 \<in> ?mk ` set (filter (\<lambda>(u, c). c > 20) ?m)"
      by (rule imageI)
    with h show "d \<in> set ?ds" by simp
  qed
  show ?thesis
    unfolding fraudDetectionJob_def find_reachable Let_def
    using dist mem by simp
qed

text \<open>Twenty-one deposits by user 1 and nineteen by user 2 within the window.\<close>

theorem daily_scan_reports_counted_users_witness:
  "\<exists>report. fraudDetectionJob (Transaction_collection no_faults deposits_21_19) every_user 0
               86400000 = Inr report
     \<and> scannedTransactions report = 40
     \<and> \<lparr>su_userId = 1, transactionCount = 21, reason = ''excessive_daily_transactions''\<rparr>
         \<in> set (details report)
     \<and> \<lparr>su_userId = 2, transactionCount = 19, reason = ''excessive_daily_transactions''\<rparr>
         \<notin> set (details report)"
proof -
  have c: "daily_count every_user 0 86400000 deposits_21_19 1 = 21"
    "daily_count every_user 0 86400000 deposits_21_19 2 = 19"
    "length (filter (yesterday_filter 0 86400000) deposits_21_19) = 40"
    by (simp_all add: daily_count_def deposits_21_19_def mk_tx_def yesterday_filter_def
        counted_user_def populate_def every_user_def)
  from c(1) have c': "daily_count every_user 0 86400000 deposits_21_19 (Suc 0) = 21"
    by simp
  from daily_scan_reports_counted_users [of deposits_21_19 every_user 0 86400000]
  obtain report where r:
    "fraudDetectionJob (Transaction_collection no_faults deposits_21_19) every_user 0 86400000
       = Inr report"
    "scannedTransactions report = length (filter (yesterday_filter 0 86400000) deposits_21_19)"
    "\<And>d. d \<in> set (details report) \<longleftrightarrow>
          20 < daily_count every_user 0 86400000 deposits_21_19 (su_userId d)
          \<and> d = \<lparr>su_userId = su_userId d,
                  transactionCount = daily_count every_user 0 86400000 deposits_21_19 (su_userId d),
                  reason = ''excessive_daily_transactions''\<rparr>"
    by blast
  have "\<lparr>su_userId = 1, transactionCount = 21, reason = ''excessive_daily_transactions''\<rparr>
          \<in> set (details report)"
    by (subst r(3)) (simp add: c c')
  moreover have "\<lparr>su_userId = 2, transactionCount = 19,
                   reason = ''excessive_daily_transactions''\<rparr> \<notin> set (details report)"
    by (subst r(3)) (simp add: c)
  ultimately show ?thesis using r(1,2) c(3) by simp
qed

text \<open>
  The claim as stated fails: of twenty-one non-deleted transfers from user 1 to user 2
  within the window, user 2 takes part in all twenty-one, yet the report names user 1
  only.
\<close>

theorem daily_scan_misses_destination:
  "length (filter (participant 2) (filter (yesterday_filter 0 86400000) transfers_1_to_2)) = 21
   \<and> fraudDetectionJob (Transaction_collection no_faults transfers_1_to_2) every_user 0 86400000
       = Inr \<lparr>scannedTransactions = 21, suspiciousUsers = 1,
              details = [\<lparr>su_userId = 1, transactionCount = 21,
                          reason = ''excessive_daily_transactions''\<rparr>]\<rparr>"
  by (simp add: fraudDetectionJob_def find_reachable transfers_1_to_2_def mk_tx_def
      yesterday_filter_def participant_def count_step_def counted_user_def populate_def
      every_user_def eval_nat_numeral)

end
